theory Spec2Isabelle
  imports Main
begin

section \<open>Linear backlink synchronisation (SyncLinearBacklinksTask)\<close>

text \<open>
  A shallow embedding of \<^verbatim>\<open>plugins/linear/server/tasks/SyncLinearBacklinksTask.ts\<close>.
  Promises are modelled by the value they settle to, thrown exceptions by \<open>Inl\<close> of a
  sum, and the calls to \<^verbatim>\<open>Logger\<close> by the list of entries a function emits.
  The collaborators the task only calls (the Linear SDK client, the model lookups, the
  platform class \<^verbatim>\<open>URL\<close>) are parameters; each of their asynchronous calls either
  throws or returns.
\<close>

subsection \<open>Strings\<close>

text \<open>\<^verbatim>\<open>String.prototype.startsWith\<close> and \<^verbatim>\<open>String.prototype.includes\<close>.\<close>

fun startsWith :: "string \<Rightarrow> string \<Rightarrow> bool" where
  "startsWith s [] = True"
| "startsWith [] (p # ps) = False"
| "startsWith (c # cs) (p # ps) = (c = p \<and> startsWith cs ps)"

fun includes_str :: "string \<Rightarrow> string \<Rightarrow> bool" where
  "includes_str [] p = (p = [])"
| "includes_str (c # cs) p = (startsWith (c # cs) p \<or> includes_str cs p)"

text \<open>An optional string is truthy when it is present and not empty.\<close>

definition truthy :: "string option \<Rightarrow> bool" where
  "truthy s = (case s of None \<Rightarrow> False | Some v \<Rightarrow> v \<noteq> [])"

text \<open>The operator \<^verbatim>\<open>a || b\<close> on strings.\<close>

definition or_else :: "string \<Rightarrow> string \<Rightarrow> string" where
  "or_else a b = (if a = [] then b else a)"

subsection \<open>Data\<close>

text \<open>A thrown value, seen through the message the handlers read from it
  (\<^verbatim>\<open>err instanceof Error ? err.message : String(err)\<close>).\<close>

datatype error = Error (message: string)

text \<open>\<^verbatim>\<open>PromiseSettledResult\<close>.\<close>

datatype 'a settled = Fulfilled 'a | Rejected error

text \<open>\<^verbatim>\<open>result.status === "rejected"\<close>.\<close>

definition rejected :: "'a settled \<Rightarrow> bool" where
  "rejected result = (case result of Rejected reason \<Rightarrow> True | Fulfilled v \<Rightarrow> False)"

datatype level = Debug | Info | Warn

datatype field = Str string string | Opt string "string option" | Num string nat

datatype log_entry = Log level string "field list"

record issue_ref =
  issue_id :: string
  issue_identifier :: string

text \<open>The interface \<^verbatim>\<open>LinearAttachment\<close>.\<close>

record LinearAttachment =
  att_id :: string
  att_url :: string
  att_issue :: issue_ref

text \<open>An attachment node as the SDK returns it: its issue is fetched lazily, and the
  fetch may throw, give \<^verbatim>\<open>undefined\<close>, or give the issue.\<close>

record attachment_node =
  node_id :: string
  node_url :: string
  node_issue :: "error + issue_ref option"

record AttachmentCreateInput =
  in_issueId :: string
  in_title :: string
  in_subtitle :: string
  in_url :: string
  in_iconUrl :: string

text \<open>The part of \<^verbatim>\<open>LinearClient\<close> the task calls. Each call either throws or
  returns; the mutations return their \<^verbatim>\<open>success\<close> flag.\<close>

record LinearClient =
  client_attachmentsForURL :: "string \<Rightarrow> error + attachment_node list"
  client_issue :: "string \<Rightarrow> error + issue_ref option"
  client_createAttachment :: "AttachmentCreateInput \<Rightarrow> error + bool"
  client_deleteAttachment :: "string \<Rightarrow> error + bool"

text \<open>The platform class \<^verbatim>\<open>URL\<close>: the constructor (\<open>None\<close> when it throws),
  \<^verbatim>\<open>searchParams.set\<close> and \<^verbatim>\<open>toString\<close>.\<close>

record 'u URL_class =
  URL_new :: "string \<Rightarrow> 'u option"
  searchParams_set :: "'u \<Rightarrow> string \<Rightarrow> string \<Rightarrow> 'u"
  URL_toString :: "'u \<Rightarrow> string"

record Document =
  doc_title :: string
  doc_path :: "string option"

record Collection =
  col_name :: string
  col_path :: "string option"

text \<open>What the task reads from its surroundings. An unset \<^verbatim>\<open>env.URL\<close> is the empty
  string (both are falsy). The three lookups are awaited outside any handler: each
  either throws or returns what it found.\<close>

record 'u environment =
  env_URL :: string
  URL :: "'u URL_class"
  getClientForTeam :: "string \<Rightarrow> error + LinearClient option"
  Document_findByPk :: "string \<Rightarrow> error + Document option"
  Collection_findByPk :: "string \<Rightarrow> error + Collection option"

record Props =
  documentId :: "string option"
  collectionId :: "string option"
  teamId :: string
  currentIssueIdentifiers :: "string list"

definition OUTLINE_ATTACHMENT_SUBTITLE :: string where
  "OUTLINE_ATTACHMENT_SUBTITLE = ''Outline''"

definition OUTLINE_REF_PARAM :: string where
  "OUTLINE_REF_PARAM = ''ref''"

definition OUTLINE_REF_VALUE :: string where
  "OUTLINE_REF_VALUE = ''outline-backlink''"

subsection \<open>The diff of \<^verbatim>\<open>perform\<close>\<close>

definition existingIdentifiers :: "LinearAttachment list \<Rightarrow> string set" where
  "existingIdentifiers existingAttachments =
     set (map (\<lambda>a. issue_identifier (att_issue a)) existingAttachments)"

definition desiredIdentifiers :: "string list \<Rightarrow> string set" where
  "desiredIdentifiers currentIssueIdentifiers' = set currentIssueIdentifiers'"

definition toCreate :: "string list \<Rightarrow> LinearAttachment list \<Rightarrow> string list" where
  "toCreate currentIssueIdentifiers' existingAttachments =
     filter (\<lambda>id. \<not> (id \<in> existingIdentifiers existingAttachments))
       currentIssueIdentifiers'"

definition toDelete :: "string list \<Rightarrow> LinearAttachment list \<Rightarrow> LinearAttachment list" where
  "toDelete currentIssueIdentifiers' existingAttachments =
     filter (\<lambda>a. \<not> (issue_identifier (att_issue a) \<in> desiredIdentifiers currentIssueIdentifiers'))
       existingAttachments"

subsection \<open>The URL of the attachment\<close>

definition buildAttachmentUrl :: "'u URL_class \<Rightarrow> string \<Rightarrow> error + string" where
  "buildAttachmentUrl U baseUrl =
     (case URL_new U baseUrl of
        None \<Rightarrow> Inl (Error (''Invalid attachment base URL: '' @ baseUrl))
      | Some url \<Rightarrow>
          Inr (URL_toString U (searchParams_set U url OUTLINE_REF_PARAM OUTLINE_REF_VALUE)))"

definition buildEntityUrl :: "'u environment \<Rightarrow> string \<Rightarrow> string" where
  "buildEntityUrl env path =
     env_URL env @ (if startsWith path ''/'' then path else ''/'' @ path)"

subsection \<open>Resolving the target\<close>

text \<open>The value of an optional string when it is truthy.\<close>

definition present :: "string option \<Rightarrow> string option" where
  "present s = (if truthy s then s else None)"

definition resolveTarget ::
  "'u environment \<Rightarrow> string option \<Rightarrow> string option \<Rightarrow>
   (error + string \<times> string) \<times> log_entry list" where
  "resolveTarget env documentId' collectionId' =
     (let both =
        (if truthy documentId' \<and> truthy collectionId'
         then [Log Warn
                 ''Both documentId and collectionId provided to resolveTarget, using documentId''
                 [Opt ''documentId'' documentId', Opt ''collectionId'' collectionId']]
         else [])
      in if env_URL env = []
         then (Inr ([], []),
               both @ [Log Warn ''env.URL is not configured, cannot construct attachment URL'' []])
         else
           (case present documentId' of
              Some did \<Rightarrow>
                (case Document_findByPk env did of
                   Inl err \<Rightarrow> (Inl err, both)
                 | Inr None \<Rightarrow> (Inr ([], []), both)
                 | Inr (Some document) \<Rightarrow>
                     (case present (doc_path document) of
                        None \<Rightarrow> (Inr ([], []), both)
                      | Some path \<Rightarrow>
                          (Inr (or_else (doc_title document) ''Untitled'',
                                buildEntityUrl env path),
                           both)))
            | None \<Rightarrow>
                (case present collectionId' of
                   Some cid \<Rightarrow>
                     (case Collection_findByPk env cid of
                        Inl err \<Rightarrow> (Inl err, both)
                      | Inr None \<Rightarrow> (Inr ([], []), both)
                      | Inr (Some collection) \<Rightarrow>
                          (case present (col_path collection) of
                             None \<Rightarrow> (Inr ([], []), both)
                           | Some path \<Rightarrow>
                               (Inr (or_else (col_name collection) ''Untitled Collection'',
                                     buildEntityUrl env path),
                                both)))
                 | None \<Rightarrow> (Inr ([], []), both))))"

subsection \<open>Listing the existing attachments\<close>

text \<open>\<^verbatim>\<open>Promise.all\<close>: the values in order, or a rejection.\<close>

fun Promise_all :: "(error + 'a) list \<Rightarrow> error + 'a list" where
  "Promise_all [] = Inr []"
| "Promise_all (p # ps) =
     (case p of
        Inl err \<Rightarrow> Inl err
      | Inr v \<Rightarrow> (case Promise_all ps of Inl err \<Rightarrow> Inl err | Inr vs \<Rightarrow> Inr (v # vs)))"

text \<open>The \<^verbatim>\<open>filter\<close> and \<^verbatim>\<open>map\<close> at the end of \<^verbatim>\<open>fetchAttachmentsForUrl\<close>, on one
  resolved pair: \<open>None\<close> when the filter drops it.\<close>

definition resolved_attachment ::
  "attachment_node \<times> issue_ref option \<Rightarrow> LinearAttachment option" where
  "resolved_attachment r =
     (case snd r of
        None \<Rightarrow> None
      | Some issue \<Rightarrow>
          Some \<lparr>att_id = node_id (fst r), att_url = node_url (fst r),
                att_issue = \<lparr>issue_id = issue_id issue,
                              issue_identifier = issue_identifier issue\<rparr>\<rparr>)"

definition fetchAttachmentsForUrl ::
  "LinearClient \<Rightarrow> string \<Rightarrow> LinearAttachment list \<times> log_entry list" where
  "fetchAttachmentsForUrl client url =
     (case
        (case client_attachmentsForURL client url of
           Inl err \<Rightarrow> Inl err
         | Inr nodes \<Rightarrow>
             (case Promise_all
                     (map (\<lambda>attachment.
                             case node_issue attachment of
                               Inl err \<Rightarrow> Inl err
                             | Inr issue \<Rightarrow> Inr (attachment, issue)) nodes) of
                Inl err \<Rightarrow> Inl err
              | Inr resolved \<Rightarrow> Inr (List.map_filter resolved_attachment resolved)))
      of
        Inl err \<Rightarrow>
          ([], [Log Warn ''Failed to fetch Linear attachments for URL''
                  [Str ''url'' url, Str ''error'' (message err)]])
      | Inr attachments \<Rightarrow> (attachments, []))"

text \<open>What one attachment node adds to the list \<^verbatim>\<open>fetchAttachmentsForUrl\<close> returns:
  an attachment when its issue resolves, nothing otherwise.\<close>

definition node_attachment :: "attachment_node \<Rightarrow> LinearAttachment option" where
  "node_attachment n =
     (case node_issue n of
        Inr (Some issue) \<Rightarrow>
          Some \<lparr>att_id = node_id n, att_url = node_url n,
                att_issue = \<lparr>issue_id = issue_id issue,
                              issue_identifier = issue_identifier issue\<rparr>\<rparr>
      | _ \<Rightarrow> None)"

subsection \<open>The two operations\<close>

text \<open>The warning of \<^verbatim>\<open>createAttachment\<close> that asks for a new authorisation.\<close>

definition permission_log :: "string \<Rightarrow> log_entry" where
  "permission_log issueIdentifier =
     Log Warn
       (''Linear integration lacks write permission for attachments. ''
        @ ''Please re-authorize the Linear integration with updated scopes.'')
       [Str ''issueIdentifier'' issueIdentifier]"

record createAttachment_params =
  p_issueIdentifier :: string
  p_title :: string
  p_url :: string

definition createAttachment ::
  "'u environment \<Rightarrow> LinearClient \<Rightarrow> createAttachment_params \<Rightarrow> unit settled \<times> log_entry list" where
  "createAttachment env client params =
     (case client_issue client (p_issueIdentifier params) of
        Inl err \<Rightarrow> (Rejected err, [])
      | Inr None \<Rightarrow>
          (Fulfilled (),
           [Log Debug (''Linear issue '' @ p_issueIdentifier params
                        @ '' not found, skipping attachment'') []])
      | Inr (Some issue) \<Rightarrow>
          (case
             (case client_createAttachment client
                     \<lparr>in_issueId = issue_id issue, in_title = p_title params,
                      in_subtitle = OUTLINE_ATTACHMENT_SUBTITLE, in_url = p_url params,
                      in_iconUrl = env_URL env @ ''/images/icon-192.png''\<rparr> of
                Inl err \<Rightarrow> Inl err
              | Inr success \<Rightarrow>
                  if \<not> success
                  then Inl (Error (''Linear attachmentCreate returned success=false for issue ''
                                    @ p_issueIdentifier params))
                  else Inr ())
           of
             Inr done \<Rightarrow> (Fulfilled (), [])
           | Inl err \<Rightarrow>
               if includes_str (message err) ''Forbidden'' \<or> includes_str (message err) ''403''
               then (Fulfilled (), [permission_log (p_issueIdentifier params)])
               else (Rejected err, [])))"

definition deleteAttachment :: "LinearClient \<Rightarrow> string \<Rightarrow> unit settled" where
  "deleteAttachment client attachmentId =
     (case
        (case client_deleteAttachment client attachmentId of
           Inl err \<Rightarrow> Inl err
         | Inr success \<Rightarrow>
             if \<not> success
             then Inl (Error (''Linear attachmentDelete returned success=false for attachment ''
                               @ attachmentId))
             else Inr ())
      of
        Inr done \<Rightarrow> Fulfilled ()
      | Inl err \<Rightarrow>
          if includes_str (message err) ''Not found'' \<or> includes_str (message err) ''404''
          then Fulfilled ()
          else Rejected err)"

subsection \<open>The task\<close>

datatype operation_type = Create | Delete

text \<open>An element of \<^verbatim>\<open>operations\<close>; the promise is what it settles to.\<close>

record operation =
  op_type :: operation_type
  op_identifier :: string
  op_promise :: "unit settled"

definition operation_type_name :: "operation_type \<Rightarrow> string" where
  "operation_type_name t = (case t of Create \<Rightarrow> ''create'' | Delete \<Rightarrow> ''delete'')"

text \<open>The elements of the two maps that build \<^verbatim>\<open>operations\<close>: calling
  \<^verbatim>\<open>createAttachment\<close> or \<^verbatim>\<open>deleteAttachment\<close> starts the operation, and the
  entries it logs are kept beside it.\<close>

definition create_operation ::
  "'u environment \<Rightarrow> LinearClient \<Rightarrow> string \<Rightarrow> string \<Rightarrow> string \<Rightarrow> operation \<times> log_entry list" where
  "create_operation env client targetTitle attachmentUrl identifier =
     (case createAttachment env client
             \<lparr>p_issueIdentifier = identifier, p_title = targetTitle, p_url = attachmentUrl\<rparr> of
        (promise, logs) \<Rightarrow>
          (\<lparr>op_type = Create, op_identifier = identifier, op_promise = promise\<rparr>, logs))"

definition delete_operation :: "LinearClient \<Rightarrow> LinearAttachment \<Rightarrow> operation \<times> log_entry list" where
  "delete_operation client attachment =
     (\<lparr>op_type = Delete, op_identifier = issue_identifier (att_issue attachment),
       op_promise = deleteAttachment client (att_id attachment)\<rparr>, [])"

text \<open>The warning \<^verbatim>\<open>perform\<close> logs for a rejected operation.\<close>

definition operation_failed_log ::
  "string option \<Rightarrow> string option \<Rightarrow> operation \<Rightarrow> error \<Rightarrow> log_entry" where
  "operation_failed_log did cid operation reason =
     Log Warn ''Linear backlink sync operation failed''
       [Opt ''documentId'' did, Opt ''collectionId'' cid,
        Str ''operation'' (operation_type_name (op_type operation)),
        Str ''issueIdentifier'' (op_identifier operation),
        Str ''error'' (message reason)]"

text \<open>The summary \<^verbatim>\<open>perform\<close> logs at the end of a run with operations.\<close>

definition summary_log ::
  "string option \<Rightarrow> string option \<Rightarrow> nat \<Rightarrow> nat \<Rightarrow> nat \<Rightarrow> nat \<Rightarrow> log_entry" where
  "summary_log did cid created deleted succeeded failed =
     Log Info ''Linear backlinks sync completed''
       [Opt ''documentId'' did, Opt ''collectionId'' cid,
        Num ''created'' created, Num ''deleted'' deleted,
        Num ''succeeded'' succeeded, Num ''failed'' failed]"

text \<open>The loop over \<^verbatim>\<open>results\<close>: the two counters and the warnings it logs.\<close>

fun results_loop ::
  "string option \<Rightarrow> string option \<Rightarrow> operation list \<Rightarrow> unit settled list \<Rightarrow>
   nat \<times> nat \<Rightarrow> (nat \<times> nat) \<times> log_entry list" where
  "results_loop did cid (operation # operations) (result # results) (succeeded, failed) =
     (case result of
        Rejected reason \<Rightarrow>
          (case results_loop did cid operations results (succeeded, failed + 1) of
             (counts, logs) \<Rightarrow>
               (counts, operation_failed_log did cid operation reason # logs))
      | Fulfilled v \<Rightarrow> results_loop did cid operations results (succeeded + 1, failed))"
| "results_loop did cid operations results (succeeded, failed) = ((succeeded, failed), [])"

text \<open>The local variables of a run of \<^verbatim>\<open>perform\<close> that reaches the diff.\<close>

record run =
  run_attachmentUrl :: string
  run_existingAttachments :: "LinearAttachment list"
  run_toCreate :: "string list"
  run_toDelete :: "LinearAttachment list"
  run_targetTitle :: string
  run_operations :: "operation list"
  run_results :: "unit settled list"
  run_succeeded :: nat
  run_failed :: nat

text \<open>\<^verbatim>\<open>perform\<close>: \<open>Inl\<close> when it throws, \<open>Inr None\<close> when it returns early, else the
  run; with the entries logged on the way. The operations run concurrently and
  \<^verbatim>\<open>Promise.allSettled\<close> waits for all of them: the entries they log are listed in the
  order of \<^verbatim>\<open>operations\<close>, and nothing below depends on that order. The answers of the
  client are a function of the request.\<close>

definition perform :: "'u environment \<Rightarrow> Props \<Rightarrow> (error + run option) \<times> log_entry list" where
  "perform env props =
     (case getClientForTeam env (teamId props) of
        Inl err \<Rightarrow> (Inl err, [])
      | Inr None \<Rightarrow> (Inr None, [])
      | Inr (Some client) \<Rightarrow>
          (case resolveTarget env (documentId props) (collectionId props) of
             (Inl err, logs1) \<Rightarrow> (Inl err, logs1)
           | (Inr (title, baseUrl), logs1) \<Rightarrow>
               if baseUrl = []
               then (Inr None,
                     logs1 @ [Log Debug ''Target not found, skipping Linear backlinks sync''
                                [Opt ''documentId'' (documentId props),
                                 Opt ''collectionId'' (collectionId props)]])
               else
                 (case buildAttachmentUrl (URL env) baseUrl of
                    Inl err \<Rightarrow> (Inl err, logs1)
                  | Inr attachmentUrl \<Rightarrow>
                      (case fetchAttachmentsForUrl client attachmentUrl of
                         (existingAttachments, logs2) \<Rightarrow>
                           (let toCreate' =
                                  toCreate (currentIssueIdentifiers props) existingAttachments;
                                toDelete' =
                                  toDelete (currentIssueIdentifiers props) existingAttachments;
                                targetTitle = or_else title ''Untitled'';
                                started =
                                  map (create_operation env client targetTitle attachmentUrl)
                                    toCreate'
                                  @ map (delete_operation client) toDelete';
                                operations = map fst started;
                                results = map op_promise operations
                            in (case results_loop (documentId props) (collectionId props)
                                       operations results (0, 0) of
                                  ((succeeded, failed), logs4) \<Rightarrow>
                                    (Inr (Some \<lparr>run_attachmentUrl = attachmentUrl,
                                                run_existingAttachments = existingAttachments,
                                                run_toCreate = toCreate',
                                                run_toDelete = toDelete',
                                                run_targetTitle = targetTitle,
                                                run_operations = operations,
                                                run_results = results,
                                                run_succeeded = succeeded,
                                                run_failed = failed\<rparr>),
                                     logs1 @ logs2 @ concat (map snd started) @ logs4
                                     @ (if length operations > 0
                                        then [summary_log (documentId props) (collectionId props)
                                                (length toCreate') (length toDelete')
                                                succeeded failed]
                                        else []))))))))"

subsection \<open>The signals the handlers look for\<close>

text \<open>The test of the handler in \<^verbatim>\<open>createAttachment\<close> (a permission error) and the
  test of the handler in \<^verbatim>\<open>deleteAttachment\<close> (the attachment is gone).\<close>

definition permission_denied :: "error \<Rightarrow> bool" where
  "permission_denied err =
     (includes_str (message err) ''Forbidden'' \<or> includes_str (message err) ''403'')"

definition not_found :: "error \<Rightarrow> bool" where
  "not_found err =
     (includes_str (message err) ''Not found'' \<or> includes_str (message err) ''404'')"

subsection \<open>A small installation for the examples\<close>

text \<open>A stand-in for the class \<^verbatim>\<open>URL\<close>: it accepts the strings that start with
  \<^verbatim>\<open>https://\<close> and writes the parameter after a question mark.\<close>

definition example_URL :: "string URL_class" where
  "example_URL =
     \<lparr>URL_new = (\<lambda>s. if startsWith s ''https://'' then Some s else None),
      searchParams_set = (\<lambda>u k v. u @ ''?'' @ k @ ''='' @ v),
      URL_toString = (\<lambda>u. u)\<rparr>"

text \<open>A client whose workspace holds one attachment \<^verbatim>\<open>a1\<close> on the issue
  \<^verbatim>\<open>ENG-1\<close>, resolves every identifier, and answers the two mutations as given.\<close>

definition example_client :: "error + bool \<Rightarrow> error + bool \<Rightarrow> LinearClient" where
  "example_client created deleted =
     \<lparr>client_attachmentsForURL =
        (\<lambda>url. Inr [\<lparr>node_id = ''a1'', node_url = url,
                      node_issue = Inr (Some \<lparr>issue_id = ''issue-uuid-1'',
                                               issue_identifier = ''ENG-1''\<rparr>)\<rparr>]),
      client_issue =
        (\<lambda>identifier. Inr (Some \<lparr>issue_id = ''issue-uuid-456'',
                                   issue_identifier = identifier\<rparr>)),
      client_createAttachment = (\<lambda>input. created),
      client_deleteAttachment = (\<lambda>attachmentId. deleted)\<rparr>"

text \<open>An installation with one document that has a title, one without, and one
  collection without a name. The lookup of the team \<^verbatim>\<open>t0\<close> and the lookup of the
  document \<^verbatim>\<open>d3\<close> throw.\<close>

definition example_env :: "string \<Rightarrow> LinearClient \<Rightarrow> string environment" where
  "example_env base client =
     \<lparr>env_URL = base,
      URL = example_URL,
      getClientForTeam =
        (\<lambda>team. if team = ''t0'' then Inl (Error ''db down'') else Inr (Some client)),
      Document_findByPk =
        (\<lambda>pk. if pk = ''d1''
              then Inr (Some \<lparr>doc_title = ''Roadmap'', doc_path = Some ''/doc/roadmap-abc''\<rparr>)
              else if pk = ''d2''
              then Inr (Some \<lparr>doc_title = [], doc_path = Some ''/doc/untitled-def''\<rparr>)
              else if pk = ''d3''
              then Inl (Error ''db down'')
              else Inr None),
      Collection_findByPk =
        (\<lambda>pk. if pk = ''c1''
              then Inr (Some \<lparr>col_name = [], col_path = Some ''/collection/c-xyz''\<rparr>)
              else Inr None)\<rparr>"

definition example_props :: "string option \<Rightarrow> string option \<Rightarrow> string list \<Rightarrow> Props" where
  "example_props did cid identifiers =
     \<lparr>documentId = did, collectionId = cid, teamId = ''t1'',
      currentIssueIdentifiers = identifiers\<rparr>"

text \<open>An attachment of the document \<^verbatim>\<open>d1\<close> as \<^verbatim>\<open>fetchAttachmentsForUrl\<close> returns it.\<close>

definition example_attachment :: "string \<Rightarrow> string \<Rightarrow> LinearAttachment" where
  "example_attachment attachmentId identifier =
     \<lparr>att_id = attachmentId,
      att_url = ''https://docs.example.com/doc/roadmap-abc?ref=outline-backlink'',
      att_issue = \<lparr>issue_id = ''issue-uuid-1'', issue_identifier = identifier\<rparr>\<rparr>"

text \<open>A workspace whose first attachment has an issue that does not resolve.\<close>

definition example_nodes :: "string \<Rightarrow> attachment_node list" where
  "example_nodes url =
     [\<lparr>node_id = ''a0'', node_url = url, node_issue = Inr None\<rparr>,
      \<lparr>node_id = ''a1'', node_url = url,
       node_issue = Inr (Some \<lparr>issue_id = ''issue-uuid-1'', issue_identifier = ''ENG-1''\<rparr>)\<rparr>]"

definition example_unresolved_client :: LinearClient where
  "example_unresolved_client =
     (example_client (Inr True) (Inr True))
       \<lparr>client_attachmentsForURL := (\<lambda>url. Inr (example_nodes url))\<rparr>"

section \<open>Properties\<close>

subsection \<open>The shape of a run\<close>

text \<open>The loop counts the fulfilled and the rejected results, and logs one warning for
  each rejected one.\<close>

lemma results_loop_counts:
  "length operations = length results \<Longrightarrow>
   fst (results_loop did cid operations results (succeeded, failed)) =
     (succeeded + length (filter (\<lambda>r. \<not> rejected r) results),
      failed + length (filter rejected results))"
proof (induction operations arbitrary: results succeeded failed)
  case Nil
  then show ?case by simp
next
  case (Cons operation operations)
  then obtain result rest where r: "results = result # rest" "length operations = length rest"
    by (cases results) auto
  show ?case
  proof (cases result)
    case (Fulfilled v)
    then show ?thesis
      using Cons.IH [OF r(2), where succeeded = "succeeded + 1" and failed = failed]
      by (simp add: r(1) rejected_def)
  next
    case (Rejected reason)
    then show ?thesis
      using Cons.IH [OF r(2), where succeeded = succeeded and failed = "failed + 1"]
      by (auto simp: r(1) rejected_def split: prod.splits)
  qed
qed

lemma results_loop_logs:
  "length operations = length results \<Longrightarrow> i < length results \<Longrightarrow>
   results ! i = Rejected reason \<Longrightarrow>
   operation_failed_log did cid (operations ! i) reason
     \<in> set (snd (results_loop did cid operations results (succeeded, failed)))"
proof (induction operations arbitrary: results succeeded failed i)
  case Nil
  then show ?case by simp
next
  case (Cons operation operations)
  then obtain result rest where r: "results = result # rest" "length operations = length rest"
    by (cases results) auto
  show ?case
  proof (cases i)
    case 0
    then show ?thesis
      using Cons.prems by (simp add: r(1) operation_failed_log_def split: prod.splits)
  next
    case (Suc k)
    then have k: "k < length rest" "rest ! k = Rejected reason"
      using Cons.prems by (simp_all add: r(1))
    show ?thesis
    proof (cases result)
      case (Fulfilled v)
      then show ?thesis
        using Cons.IH [OF r(2) k, where succeeded = "succeeded + 1" and failed = failed]
        by (simp add: r(1) Suc)
    next
      case (Rejected e)
      then show ?thesis
        using Cons.IH [OF r(2) k, where succeeded = succeeded and failed = "failed + 1"]
        by (auto simp: r(1) Suc split: prod.splits)
    qed
  qed
qed

text \<open>A run that reaches the diff, read back from the result of \<^verbatim>\<open>perform\<close>.\<close>

lemma perform_run:
  assumes "fst (perform env props) = Inr (Some r)"
  obtains client title baseUrl logs1 logs2 where
    "getClientForTeam env (teamId props) = Inr (Some client)"
    "resolveTarget env (documentId props) (collectionId props) = (Inr (title, baseUrl), logs1)"
    "baseUrl \<noteq> []"
    "buildAttachmentUrl (URL env) baseUrl = Inr (run_attachmentUrl r)"
    "fetchAttachmentsForUrl client (run_attachmentUrl r) = (run_existingAttachments r, logs2)"
    "run_toCreate r = toCreate (currentIssueIdentifiers props) (run_existingAttachments r)"
    "run_toDelete r = toDelete (currentIssueIdentifiers props) (run_existingAttachments r)"
    "run_targetTitle r = or_else title ''Untitled''"
    "run_operations r =
       map (\<lambda>identifier.
              fst (create_operation env client (run_targetTitle r) (run_attachmentUrl r) identifier))
         (run_toCreate r)
       @ map (\<lambda>attachment. fst (delete_operation client attachment)) (run_toDelete r)"
    "run_results r = map op_promise (run_operations r)"
    "run_succeeded r = length (filter (\<lambda>x. \<not> rejected x) (run_results r))"
    "run_failed r = length (filter rejected (run_results r))"
    "snd (perform env props) =
       logs1 @ logs2
       @ concat (map (\<lambda>identifier.
              snd (create_operation env client (run_targetTitle r) (run_attachmentUrl r) identifier))
           (run_toCreate r))
       @ snd (results_loop (documentId props) (collectionId props)
                (run_operations r) (run_results r) (0, 0))
       @ (if length (run_operations r) > 0
          then [summary_log (documentId props) (collectionId props)
                  (length (run_toCreate r)) (length (run_toDelete r))
                  (run_succeeded r) (run_failed r)]
          else [])"
proof -
  from assms obtain client where c: "getClientForTeam env (teamId props) = Inr (Some client)"
    by (auto simp: perform_def split: sum.splits option.splits)
  from assms obtain title baseUrl logs1 where
    t: "resolveTarget env (documentId props) (collectionId props) = (Inr (title, baseUrl), logs1)"
    by (cases "resolveTarget env (documentId props) (collectionId props)")
      (auto simp: perform_def c split: sum.splits)
  have b: "baseUrl \<noteq> []"
    using assms by (auto simp: perform_def c t)
  from assms obtain attachmentUrl where
    u: "buildAttachmentUrl (URL env) baseUrl = Inr attachmentUrl"
    by (cases "buildAttachmentUrl (URL env) baseUrl") (simp_all add: perform_def c t b)
  obtain existing logs2 where
    f: "fetchAttachmentsForUrl client attachmentUrl = (existing, logs2)"
    by (metis prod.exhaust)
  let ?started = "map (create_operation env client (or_else title ''Untitled'') attachmentUrl)
                    (toCreate (currentIssueIdentifiers props) existing)
                  @ map (delete_operation client) (toDelete (currentIssueIdentifiers props) existing)"
  let ?ops = "map fst ?started"
  obtain s fl logs4 where
    l: "results_loop (documentId props) (collectionId props) ?ops (map op_promise ?ops) (0, 0)
        = ((s, fl), logs4)"
    by (metis prod.exhaust)
  have counts: "(s, fl) = (length (filter (\<lambda>x. \<not> rejected x) (map op_promise ?ops)),
                          length (filter rejected (map op_promise ?ops)))"
    using results_loop_counts [of ?ops "map op_promise ?ops" "documentId props"
        "collectionId props" 0 0] l by simp
  have p: "perform env props =
    (Inr (Some \<lparr>run_attachmentUrl = attachmentUrl,
                run_existingAttachments = existing,
                run_toCreate = toCreate (currentIssueIdentifiers props) existing,
                run_toDelete = toDelete (currentIssueIdentifiers props) existing,
                run_targetTitle = or_else title ''Untitled'',
                run_operations = ?ops,
                run_results = map op_promise ?ops,
                run_succeeded = s,
                run_failed = fl\<rparr>),
     logs1 @ logs2 @ concat (map snd ?started) @ logs4
       @ (if length ?ops > 0
          then [summary_log (documentId props) (collectionId props)
                  (length (toCreate (currentIssueIdentifiers props) existing)) (length (toDelete (currentIssueIdentifiers props) existing))
                  s fl]
          else []))"
    by (simp only: perform_def c option.case t prod.case b if_False u sum.case f Let_def l)
  have r: "r = \<lparr>run_attachmentUrl = attachmentUrl,
                run_existingAttachments = existing,
                run_toCreate = toCreate (currentIssueIdentifiers props) existing,
                run_toDelete = toDelete (currentIssueIdentifiers props) existing,
                run_targetTitle = or_else title ''Untitled'',
                run_operations = ?ops,
                run_results = map op_promise ?ops,
                run_succeeded = s,
                run_failed = fl\<rparr>"
    using assms p by simp
  have dl: "concat (map snd (map (delete_operation client) xs)) = []" for xs
    by (induction xs) (simp_all add: delete_operation_def)
  show thesis
  proof (rule that [of client title baseUrl logs1 logs2])
    show "getClientForTeam env (teamId props) = Inr (Some client)" by (rule c)
    show "resolveTarget env (documentId props) (collectionId props) = (Inr (title, baseUrl), logs1)"
      by (rule t)
    show "baseUrl \<noteq> []" by (rule b)
    show "buildAttachmentUrl (URL env) baseUrl = Inr (run_attachmentUrl r)"
      by (simp add: r u)
    show "fetchAttachmentsForUrl client (run_attachmentUrl r) = (run_existingAttachments r, logs2)"
      by (simp add: r f)
    show "run_toCreate r = toCreate (currentIssueIdentifiers props) (run_existingAttachments r)"
      by (simp add: r)
    show "run_toDelete r = toDelete (currentIssueIdentifiers props) (run_existingAttachments r)"
      by (simp add: r)
    show "run_targetTitle r = or_else title ''Untitled''"
      by (simp add: r)
    show "run_operations r =
       map (\<lambda>identifier.
              fst (create_operation env client (run_targetTitle r) (run_attachmentUrl r) identifier))
         (run_toCreate r)
       @ map (\<lambda>attachment. fst (delete_operation client attachment)) (run_toDelete r)"
      by (simp add: r comp_def)
    show "run_results r = map op_promise (run_operations r)"
      by (simp add: r)
    show "run_succeeded r = length (filter (\<lambda>x. \<not> rejected x) (run_results r))"
      using counts by (simp add: r)
    show "run_failed r = length (filter rejected (run_results r))"
      using counts by (simp add: r)
    show "snd (perform env props) =
       logs1 @ logs2
       @ concat (map (\<lambda>identifier.
              snd (create_operation env client (run_targetTitle r) (run_attachmentUrl r) identifier))
           (run_toCreate r))
       @ snd (results_loop (documentId props) (collectionId props)
                (run_operations r) (run_results r) (0, 0))
       @ (if length (run_operations r) > 0
          then [summary_log (documentId props) (collectionId props)
                  (length (run_toCreate r)) (length (run_toDelete r))
                  (run_succeeded r) (run_failed r)]
          else [])"
      unfolding p using l by (simp add: r comp_def delete_operation_def del: results_loop.simps)
  qed
qed



lemma perform_completes:
  assumes "getClientForTeam env (teamId props) = Inr (Some client)"
    and "resolveTarget env (documentId props) (collectionId props) = (Inr (title, baseUrl), logs1)"
    and "baseUrl \<noteq> []"
    and "buildAttachmentUrl (URL env) baseUrl = Inr attachmentUrl"
  shows "\<exists>r. fst (perform env props) = Inr (Some r)"
  unfolding perform_def Let_def using assms
  by (auto split: option.splits prod.splits sum.splits if_splits)

text \<open>The operations and their results, by position: the creates first, in the order of
  \<open>toCreate\<close>, then the deletes, in the order of \<open>toDelete\<close>.\<close>

lemma create_operation_parts:
  "fst (create_operation env client targetTitle attachmentUrl identifier) =
     \<lparr>op_type = Create, op_identifier = identifier,
      op_promise = fst (createAttachment env client
        \<lparr>p_issueIdentifier = identifier, p_title = targetTitle, p_url = attachmentUrl\<rparr>)\<rparr>"
  "snd (create_operation env client targetTitle attachmentUrl identifier) =
     snd (createAttachment env client
        \<lparr>p_issueIdentifier = identifier, p_title = targetTitle, p_url = attachmentUrl\<rparr>)"
  by (simp_all add: create_operation_def split: prod.splits)

lemma run_create_nth:
  assumes "fst (perform env props) = Inr (Some r)"
    and "getClientForTeam env (teamId props) = Inr (Some client)"
    and "i < length (run_toCreate r)"
  shows "run_operations r ! i =
           \<lparr>op_type = Create, op_identifier = run_toCreate r ! i,
            op_promise = fst (createAttachment env client
              \<lparr>p_issueIdentifier = run_toCreate r ! i, p_title = run_targetTitle r,
               p_url = run_attachmentUrl r\<rparr>)\<rparr>"
    and "run_results r ! i =
           fst (createAttachment env client
              \<lparr>p_issueIdentifier = run_toCreate r ! i, p_title = run_targetTitle r,
               p_url = run_attachmentUrl r\<rparr>)"
    and "set (snd (createAttachment env client
              \<lparr>p_issueIdentifier = run_toCreate r ! i, p_title = run_targetTitle r,
               p_url = run_attachmentUrl r\<rparr>)) \<subseteq> set (snd (perform env props))"
proof -
  from perform_run [OF assms(1)] obtain client' title baseUrl logs1 logs2 where
    c: "getClientForTeam env (teamId props) = Inr (Some client')"
    and ops: "run_operations r =
       map (\<lambda>identifier.
              fst (create_operation env client' (run_targetTitle r) (run_attachmentUrl r) identifier))
         (run_toCreate r)
       @ map (\<lambda>attachment. fst (delete_operation client' attachment)) (run_toDelete r)"
    and res: "run_results r = map op_promise (run_operations r)"
    and logs: "snd (perform env props) =
       logs1 @ logs2
       @ concat (map (\<lambda>identifier.
              snd (create_operation env client' (run_targetTitle r) (run_attachmentUrl r) identifier))
           (run_toCreate r))
       @ snd (results_loop (documentId props) (collectionId props)
                (run_operations r) (run_results r) (0, 0))
       @ (if length (run_operations r) > 0
          then [summary_log (documentId props) (collectionId props)
                  (length (run_toCreate r)) (length (run_toDelete r))
                  (run_succeeded r) (run_failed r)]
          else [])"
    by blast
  have same: "client' = client"
    using c assms(2) by simp
  show op: "run_operations r ! i =
           \<lparr>op_type = Create, op_identifier = run_toCreate r ! i,
            op_promise = fst (createAttachment env client
              \<lparr>p_issueIdentifier = run_toCreate r ! i, p_title = run_targetTitle r,
               p_url = run_attachmentUrl r\<rparr>)\<rparr>"
    using assms(3) by (simp add: ops same nth_append create_operation_parts)
  have "i < length (run_operations r)"
    using assms(3) by (simp add: ops)
  then show "run_results r ! i =
           fst (createAttachment env client
              \<lparr>p_issueIdentifier = run_toCreate r ! i, p_title = run_targetTitle r,
               p_url = run_attachmentUrl r\<rparr>)"
    by (simp add: res op)
  have "run_toCreate r ! i \<in> set (run_toCreate r)"
    using assms(3) by simp
  then show "set (snd (createAttachment env client
              \<lparr>p_issueIdentifier = run_toCreate r ! i, p_title = run_targetTitle r,
               p_url = run_attachmentUrl r\<rparr>)) \<subseteq> set (snd (perform env props))"
    unfolding logs same by (auto simp: create_operation_parts)
qed

lemma run_delete_nth:
  assumes "fst (perform env props) = Inr (Some r)"
    and "getClientForTeam env (teamId props) = Inr (Some client)"
    and "j < length (run_toDelete r)"
  shows "run_operations r ! (length (run_toCreate r) + j) =
           \<lparr>op_type = Delete,
            op_identifier = issue_identifier (att_issue (run_toDelete r ! j)),
            op_promise = deleteAttachment client (att_id (run_toDelete r ! j))\<rparr>"
    and "run_results r ! (length (run_toCreate r) + j) =
           deleteAttachment client (att_id (run_toDelete r ! j))"
    and "length (run_toCreate r) + j < length (run_results r)"
proof -
  from perform_run [OF assms(1)] obtain client' where
    c: "getClientForTeam env (teamId props) = Inr (Some client')"
    and ops: "run_operations r =
       map (\<lambda>identifier.
              fst (create_operation env client' (run_targetTitle r) (run_attachmentUrl r) identifier))
         (run_toCreate r)
       @ map (\<lambda>attachment. fst (delete_operation client' attachment)) (run_toDelete r)"
    and res: "run_results r = map op_promise (run_operations r)"
    by blast
  have same: "client' = client"
    using c assms(2) by simp
  show op: "run_operations r ! (length (run_toCreate r) + j) =
           \<lparr>op_type = Delete,
            op_identifier = issue_identifier (att_issue (run_toDelete r ! j)),
            op_promise = deleteAttachment client (att_id (run_toDelete r ! j))\<rparr>"
    using assms(3) by (simp add: ops same nth_append delete_operation_def)
  have len: "length (run_toCreate r) + j < length (run_operations r)"
    using assms(3) by (simp add: ops)
  then show "run_results r ! (length (run_toCreate r) + j) =
           deleteAttachment client (att_id (run_toDelete r ! j))"
    by (simp add: res op)
  show "length (run_toCreate r) + j < length (run_results r)"
    using len by (simp add: res)
qed

lemma run_lengths:
  assumes "fst (perform env props) = Inr (Some r)"
  shows "length (run_operations r) = length (run_toCreate r) + length (run_toDelete r)"
    and "length (run_results r) = length (run_toCreate r) + length (run_toDelete r)"
    and "run_succeeded r + run_failed r = length (run_toCreate r) + length (run_toDelete r)"
proof -
  from perform_run [OF assms] obtain client' where
    ops: "run_operations r =
       map (\<lambda>identifier.
              fst (create_operation env client' (run_targetTitle r) (run_attachmentUrl r) identifier))
         (run_toCreate r)
       @ map (\<lambda>attachment. fst (delete_operation client' attachment)) (run_toDelete r)"
    and res: "run_results r = map op_promise (run_operations r)"
    and s: "run_succeeded r = length (filter (\<lambda>x. \<not> rejected x) (run_results r))"
    and f: "run_failed r = length (filter rejected (run_results r))"
    by blast
  show 1: "length (run_operations r) = length (run_toCreate r) + length (run_toDelete r)"
    by (simp add: ops)
  show 2: "length (run_results r) = length (run_toCreate r) + length (run_toDelete r)"
    by (simp add: res 1)
  have "length (filter (\<lambda>x. \<not> rejected x) (run_results r)) + length (filter rejected (run_results r))
        = length (run_results r)"
    using sum_length_filter_compl [of rejected "run_results r"] by simp
  then show "run_succeeded r + run_failed r = length (run_toCreate r) + length (run_toDelete r)"
    by (simp add: s f 2)
qed

text \<open>A rejected result is logged by \<^verbatim>\<open>perform\<close>.\<close>

lemma failure_logged:
  assumes "fst (perform env props) = Inr (Some r)"
    and "k < length (run_results r)"
    and "run_results r ! k = Rejected err"
  shows "operation_failed_log (documentId props) (collectionId props) (run_operations r ! k) err
           \<in> set (snd (perform env props))"
proof -
  from perform_run [OF assms(1)] obtain client title baseUrl logs1 logs2 where
    res: "run_results r = map op_promise (run_operations r)"
    and logs: "snd (perform env props) =
       logs1 @ logs2
       @ concat (map (\<lambda>identifier.
              snd (create_operation env client (run_targetTitle r) (run_attachmentUrl r) identifier))
           (run_toCreate r))
       @ snd (results_loop (documentId props) (collectionId props)
                (run_operations r) (run_results r) (0, 0))
       @ (if length (run_operations r) > 0
          then [summary_log (documentId props) (collectionId props)
                  (length (run_toCreate r)) (length (run_toDelete r))
                  (run_succeeded r) (run_failed r)]
          else [])"
    by blast
  have "length (run_operations r) = length (run_results r)"
    by (simp add: res)
  from results_loop_logs [OF this assms(2) assms(3)]
  have "operation_failed_log (documentId props) (collectionId props) (run_operations r ! k) err
          \<in> set (snd (results_loop (documentId props) (collectionId props)
                (run_operations r) (run_results r) (0, 0)))" .
  then show ?thesis
    unfolding logs by simp
qed

text \<open>Unfolding the task and the examples, to run them.\<close>

lemmas task_defs =
  perform_def resolveTarget_def buildAttachmentUrl_def buildEntityUrl_def
  fetchAttachmentsForUrl_def createAttachment_def deleteAttachment_def
  create_operation_def delete_operation_def toCreate_def toDelete_def
  existingIdentifiers_def desiredIdentifiers_def present_def truthy_def or_else_def
  resolved_attachment_def List.map_filter_def
  OUTLINE_ATTACHMENT_SUBTITLE_def OUTLINE_REF_PARAM_def OUTLINE_REF_VALUE_def
  operation_failed_log_def permission_log_def summary_log_def operation_type_name_def
  permission_denied_def not_found_def rejected_def Let_def

lemmas example_defs =
  example_env_def example_client_def example_props_def example_URL_def example_attachment_def

text \<open>A target with a URL has a title.\<close>

lemma resolveTarget_title:
  assumes "resolveTarget env documentId' collectionId' = (Inr (title, baseUrl), logs)"
    and "baseUrl \<noteq> []"
  shows "title \<noteq> []"
  using assms unfolding resolveTarget_def Let_def or_else_def
  by (auto split: if_splits option.splits sum.splits)

text \<open>The list of existing attachments when no issue fetch throws.\<close>

lemma Promise_all_issues:
  assumes "\<forall>n\<in>set nodes. \<exists>issue. node_issue n = Inr issue"
  shows "\<exists>resolved.
           Promise_all (map (\<lambda>attachment.
                               case node_issue attachment of
                                 Inl err \<Rightarrow> Inl err
                               | Inr issue \<Rightarrow> Inr (attachment, issue)) nodes) = Inr resolved
           \<and> List.map_filter resolved_attachment resolved
               = List.map_filter node_attachment nodes"
  using assms
proof (induction nodes)
  case Nil
  then show ?case by (simp add: map_filter_simps)
next
  case (Cons n nodes)
  then obtain issue where i: "node_issue n = Inr issue"
    by auto
  from Cons obtain resolved where
    r: "Promise_all (map (\<lambda>attachment.
                            case node_issue attachment of
                              Inl err \<Rightarrow> Inl err
                            | Inr issue \<Rightarrow> Inr (attachment, issue)) nodes) = Inr resolved"
    and m: "List.map_filter resolved_attachment resolved = List.map_filter node_attachment nodes"
    by auto
  have head: "resolved_attachment (n, issue) = node_attachment n"
    by (cases issue) (simp_all add: resolved_attachment_def node_attachment_def i)
  show ?case
    by (simp add: i r m map_filter_simps head split: option.splits)
qed

lemma fetch_resolved:
  assumes "client_attachmentsForURL client url = Inr nodes"
    and "\<forall>n\<in>set nodes. \<exists>issue. node_issue n = Inr issue"
  shows "fetchAttachmentsForUrl client url = (List.map_filter node_attachment nodes, [])"
  using Promise_all_issues [OF assms(2)] assms(1)
  by (auto simp: fetchAttachmentsForUrl_def)

lemma set_map_filter_nodes:
  "set (List.map_filter node_attachment nodes) =
     {a. \<exists>n\<in>set nodes. \<exists>issue. node_issue n = Inr (Some issue)
          \<and> a = \<lparr>att_id = node_id n, att_url = node_url n,
                  att_issue = \<lparr>issue_id = issue_id issue,
                                issue_identifier = issue_identifier issue\<rparr>\<rparr>}"
proof (induction nodes)
  case Nil
  then show ?case by (simp add: map_filter_simps)
next
  case (Cons n nodes)
  show ?case
    unfolding map_filter_simps
    by (cases "node_issue n"; cases "projr (node_issue n)")
      (auto simp: node_attachment_def Cons.IH)
qed

text \<open>When an issue fetch throws, the list is empty.\<close>

lemma Promise_all_issue_throws:
  assumes "\<not> (\<forall>n\<in>set nodes. \<exists>issue. node_issue n = Inr issue)"
  shows "\<exists>err.
           Promise_all (map (\<lambda>attachment.
                               case node_issue attachment of
                                 Inl err \<Rightarrow> Inl err
                               | Inr issue \<Rightarrow> Inr (attachment, issue)) nodes) = Inl err"
  using assms
proof (induction nodes)
  case Nil
  then show ?case by simp
next
  case (Cons n nodes)
  show ?case
  proof (cases "node_issue n")
    case (Inl err)
    then show ?thesis by simp
  next
    case (Inr issue)
    with Cons.prems have "\<not> (\<forall>n\<in>set nodes. \<exists>issue. node_issue n = Inr issue)"
      by simp
    from Cons.IH [OF this] Inr show ?thesis
      by auto
  qed
qed

lemma fetch_throws:
  assumes "client_attachmentsForURL client url = Inr nodes"
    and "\<not> (\<forall>n\<in>set nodes. \<exists>issue. node_issue n = Inr issue)"
  shows "fst (fetchAttachmentsForUrl client url) = []"
  using Promise_all_issue_throws [OF assms(2)] assms(1)
  by (auto simp: fetchAttachmentsForUrl_def)

text \<open>The identifiers of the existing attachments are those of the resolved issues.\<close>

lemma existingIdentifiers_nodes:
  "existingIdentifiers (List.map_filter node_attachment nodes)
           = {d. \<exists>n\<in>set nodes. \<exists>issue. node_issue n = Inr (Some issue)
                    \<and> issue_identifier issue = d}"
proof (intro set_eqI iffI)
  fix d
  assume "d \<in> existingIdentifiers (List.map_filter node_attachment nodes)"
  then obtain a where "a \<in> set (List.map_filter node_attachment nodes)"
    and "d = issue_identifier (att_issue a)"
    by (auto simp: existingIdentifiers_def)
  then show "d \<in> {d. \<exists>n\<in>set nodes. \<exists>issue. node_issue n = Inr (Some issue)
                    \<and> issue_identifier issue = d}"
    unfolding set_map_filter_nodes by auto blast
next
  fix d
  assume "d \<in> {d. \<exists>n\<in>set nodes. \<exists>issue. node_issue n = Inr (Some issue)
                    \<and> issue_identifier issue = d}"
  then obtain n issue where n: "n \<in> set nodes" "node_issue n = Inr (Some issue)"
    and d: "issue_identifier issue = d"
    by auto
  let ?a = "\<lparr>att_id = node_id n, att_url = node_url n,
             att_issue = \<lparr>issue_id = issue_id issue,
                           issue_identifier = issue_identifier issue\<rparr>\<rparr>"
  have "?a \<in> set (List.map_filter node_attachment nodes)"
    using n unfolding set_map_filter_nodes by blast
  then have "issue_identifier (att_issue ?a)
               \<in> existingIdentifiers (List.map_filter node_attachment nodes)"
    unfolding existingIdentifiers_def set_map by (rule imageI)
  then show "d \<in> existingIdentifiers (List.map_filter node_attachment nodes)"
    using d by simp
qed

text \<open>The create operations of a run, counted by identifier.\<close>

lemma count_toCreate:
  "count_list (toCreate desired existing) x =
     (if x \<in> existingIdentifiers existing then 0 else count_list desired x)"
  unfolding toCreate_def by (induction desired) auto

lemma create_operations_count:
  assumes "fst (perform env props) = Inr (Some r)"
  shows "length (filter (\<lambda>operation. op_type operation = Create \<and> op_identifier operation = x)
                   (run_operations r))
         = count_list (run_toCreate r) x"
proof -
  from perform_run [OF assms] obtain client where
    ops: "run_operations r =
       map (\<lambda>identifier.
              fst (create_operation env client (run_targetTitle r) (run_attachmentUrl r) identifier))
         (run_toCreate r)
       @ map (\<lambda>attachment. fst (delete_operation client attachment)) (run_toDelete r)"
    by blast
  have creates: "length (filter (\<lambda>operation. op_type operation = Create \<and> op_identifier operation = x)
          (map (\<lambda>identifier. fst (create_operation env client t u identifier)) xs))
        = count_list xs x" for t u xs
    by (induction xs) (simp_all add: create_operation_parts)
  have deletes: "filter (\<lambda>operation. op_type operation = Create \<and> op_identifier operation = x)
          (map (\<lambda>attachment. fst (delete_operation client attachment)) ys) = []" for ys
    by (induction ys) (simp_all add: delete_operation_def)
  show ?thesis
    unfolding ops by (simp only: filter_append length_append creates deletes list.size add_0_right)
qed

subsection \<open>The claims\<close>

text \<open>
  C1 (diff correctness). For every list of desired identifiers and every list of existing
  attachments, \<open>toCreate\<close> holds exactly the desired identifiers that are the issue
  identifier of no existing attachment, so no identifier of \<open>toCreate\<close> is carried by an
  existing attachment, and \<open>toDelete\<close> holds exactly the existing attachments whose issue
  identifier is not in the desired list. These two lists are the ones a run of
  \<^verbatim>\<open>perform\<close> works on, computed from the attachments the run fetched.
\<close>

theorem diff_correct:
  "set (toCreate desired existing)
     = {d. d \<in> set desired \<and> (\<forall>a\<in>set existing. issue_identifier (att_issue a) \<noteq> d)}
   \<and> set (toCreate desired existing)
       \<inter> {d. \<exists>a\<in>set existing. issue_identifier (att_issue a) = d} = {}
   \<and> set (toDelete desired existing)
     = {a. a \<in> set existing \<and> issue_identifier (att_issue a) \<notin> set desired}
   \<and> (fst (perform env props) = Inr (Some r) \<longrightarrow>
        set (run_toCreate r)
          = {d. d \<in> set (currentIssueIdentifiers props)
               \<and> (\<forall>a\<in>set (run_existingAttachments r). issue_identifier (att_issue a) \<noteq> d)}
        \<and> set (run_toDelete r)
          = {a. a \<in> set (run_existingAttachments r)
               \<and> issue_identifier (att_issue a) \<notin> set (currentIssueIdentifiers props)})"
proof -
  have create: "set (toCreate xs ys)
     = {d. d \<in> set xs \<and> (\<forall>a\<in>set ys. issue_identifier (att_issue a) \<noteq> d)}" for xs ys
    by (auto simp: toCreate_def existingIdentifiers_def)
  have delete: "set (toDelete xs ys)
     = {a. a \<in> set ys \<and> issue_identifier (att_issue a) \<notin> set xs}" for xs ys
    by (auto simp: toDelete_def desiredIdentifiers_def)
  have run: "run_toCreate r = toCreate (currentIssueIdentifiers props) (run_existingAttachments r)
        \<and> run_toDelete r = toDelete (currentIssueIdentifiers props) (run_existingAttachments r)"
    if "fst (perform env props) = Inr (Some r)"
    using perform_run [OF that] by blast
  have disjoint: "set (toCreate desired existing)
       \<inter> {d. \<exists>a\<in>set existing. issue_identifier (att_issue a) = d} = {}"
    unfolding create by blast
  show ?thesis
  proof (intro conjI impI)
    show "set (toCreate desired existing)
       = {d. d \<in> set desired \<and> (\<forall>a\<in>set existing. issue_identifier (att_issue a) \<noteq> d)}"
      by (rule create)
    show "set (toCreate desired existing)
       \<inter> {d. \<exists>a\<in>set existing. issue_identifier (att_issue a) = d} = {}"
      by (rule disjoint)
    show "set (toDelete desired existing)
       = {a. a \<in> set existing \<and> issue_identifier (att_issue a) \<notin> set desired}"
      by (rule delete)
  next
    assume r: "fst (perform env props) = Inr (Some r)"
    show "set (run_toCreate r)
          = {d. d \<in> set (currentIssueIdentifiers props)
               \<and> (\<forall>a\<in>set (run_existingAttachments r). issue_identifier (att_issue a) \<noteq> d)}"
      using run [OF r] create by simp
    show "set (run_toDelete r)
          = {a. a \<in> set (run_existingAttachments r)
               \<and> issue_identifier (att_issue a) \<notin> set (currentIssueIdentifiers props)}"
      using run [OF r] delete by simp
  qed
qed

theorem diff_correct_witness:
  "perform
     (example_env ''https://docs.example.com'' (example_client (Inr True) (Inr True)))
     (example_props (Some ''d1'') None [''ENG-456'', ''ENG-1''])
   = (Inr (Some
        \<lparr>run_attachmentUrl = ''https://docs.example.com/doc/roadmap-abc?ref=outline-backlink'',
         run_existingAttachments = [example_attachment ''a1'' ''ENG-1''],
         run_toCreate = [''ENG-456''],
         run_toDelete = [],
         run_targetTitle = ''Roadmap'',
         run_operations =
           [\<lparr>op_type = Create, op_identifier = ''ENG-456'', op_promise = Fulfilled ()\<rparr>],
         run_results = [Fulfilled ()],
         run_succeeded = 1, run_failed = 0\<rparr>),
      [summary_log (Some ''d1'') None 1 0 1 0])
   \<and> set [''ENG-456'']
     = {d. d \<in> set [''ENG-456'', ''ENG-1'']
          \<and> (\<forall>a\<in>set [example_attachment ''a1'' ''ENG-1''].
                issue_identifier (att_issue a) \<noteq> d)}
   \<and> set (toCreate [''ENG-456'', ''ENG-1''] [example_attachment ''a1'' ''ENG-1''])
     = {''ENG-456''}
   \<and> set (toDelete [''ENG-456''] [example_attachment ''a1'' ''ENG-1''])
     = {example_attachment ''a1'' ''ENG-1''}"
proof -
  let ?env = "example_env ''https://docs.example.com'' (example_client (Inr True) (Inr True))"
  let ?props = "example_props (Some ''d1'') None [''ENG-456'', ''ENG-1'']"
  let ?run = "\<lparr>run_attachmentUrl = ''https://docs.example.com/doc/roadmap-abc?ref=outline-backlink'',
                run_existingAttachments = [example_attachment ''a1'' ''ENG-1''],
                run_toCreate = [''ENG-456''],
                run_toDelete = [],
                run_targetTitle = ''Roadmap'',
                run_operations =
                  [\<lparr>op_type = Create, op_identifier = ''ENG-456'', op_promise = Fulfilled ()\<rparr>],
                run_results = [Fulfilled ()],
                run_succeeded = 1, run_failed = 0\<rparr>"
  have p: "perform ?env ?props = (Inr (Some ?run), [summary_log (Some ''d1'') None 1 0 1 0])"
    by (simp add: task_defs example_defs)
  note w = diff_correct [of "[''ENG-456'', ''ENG-1'']" "[example_attachment ''a1'' ''ENG-1'']"
      ?env ?props ?run]
  note v = diff_correct [of "[''ENG-456'']" "[example_attachment ''a1'' ''ENG-1'']"
      ?env ?props ?run]
  have c: "set (toCreate [''ENG-456'', ''ENG-1''] [example_attachment ''a1'' ''ENG-1''])
     = {d. d \<in> set [''ENG-456'', ''ENG-1'']
          \<and> (\<forall>a\<in>set [example_attachment ''a1'' ''ENG-1'']. issue_identifier (att_issue a) \<noteq> d)}"
    using w by (rule conjunct1)
  have d: "set (toDelete [''ENG-456''] [example_attachment ''a1'' ''ENG-1''])
     = {a. a \<in> set [example_attachment ''a1'' ''ENG-1'']
          \<and> issue_identifier (att_issue a) \<notin> set [''ENG-456'']}"
    using v [THEN conjunct2, THEN conjunct2] by (rule conjunct1)
  have q: "fst (perform ?env ?props) = Inr (Some ?run)"
    unfolding p by simp
  have "set (run_toCreate ?run)
          = {d. d \<in> set (currentIssueIdentifiers ?props)
               \<and> (\<forall>a\<in>set (run_existingAttachments ?run). issue_identifier (att_issue a) \<noteq> d)}"
    using w [THEN conjunct2, THEN conjunct2, THEN conjunct2, THEN mp, OF q]
    by (rule conjunct1)
  then have s: "set [''ENG-456'']
     = {d. d \<in> set [''ENG-456'', ''ENG-1'']
          \<and> (\<forall>a\<in>set [example_attachment ''a1'' ''ENG-1''].
                issue_identifier (att_issue a) \<noteq> d)}"
    by (simp add: example_props_def)
  have c': "set (toCreate [''ENG-456'', ''ENG-1''] [example_attachment ''a1'' ''ENG-1''])
     = {''ENG-456''}"
    unfolding c by (auto simp: example_attachment_def)
  have d': "set (toDelete [''ENG-456''] [example_attachment ''a1'' ''ENG-1''])
     = {example_attachment ''a1'' ''ENG-1''}"
    unfolding d by (auto simp: example_attachment_def)
  show ?thesis
    by (intro conjI) (rule p s c' d')+
qed

text \<open>
  C2 (duplicates in the desired list), as the code has it. The create operations of a run
  for an identifier are as many as the identifier occurs in the desired list, and none
  when an existing attachment carries it; \<^verbatim>\<open>perform\<close> filters the list it is given and
  does not remove duplicates. When the desired list has no duplicates, \<open>toCreate\<close> has
  none and there is at most one create operation for each identifier.
\<close>

theorem creates_follow_occurrences:
  assumes "fst (perform env props) = Inr (Some r)"
  shows "length (filter (\<lambda>operation. op_type operation = Create \<and> op_identifier operation = x)
                   (run_operations r))
         = (if x \<in> existingIdentifiers (run_existingAttachments r) then 0
            else count_list (currentIssueIdentifiers props) x)
     \<and> (distinct (currentIssueIdentifiers props) \<longrightarrow>
          distinct (run_toCreate r)
          \<and> length (filter (\<lambda>operation. op_type operation = Create \<and> op_identifier operation = x)
                      (run_operations r)) \<le> 1)"
proof -
  from perform_run [OF assms] have
    tc: "run_toCreate r = toCreate (currentIssueIdentifiers props) (run_existingAttachments r)"
    by blast
  have n: "length (filter (\<lambda>operation. op_type operation = Create \<and> op_identifier operation = x)
                   (run_operations r))
         = (if x \<in> existingIdentifiers (run_existingAttachments r) then 0
            else count_list (currentIssueIdentifiers props) x)"
    unfolding create_operations_count [OF assms] tc by (rule count_toCreate)
  have d: "distinct (run_toCreate r)" if "distinct (currentIssueIdentifiers props)"
    using that unfolding tc toCreate_def by simp
  have "count_list xs x \<le> 1" if "distinct xs" for xs
    using that by (induction xs) (auto simp: count_list_0_iff)
  then have "count_list (currentIssueIdentifiers props) x \<le> 1"
    if "distinct (currentIssueIdentifiers props)"
    using that by blast
  with n d show ?thesis by auto
qed

theorem creates_follow_occurrences_witness:
  "distinct (currentIssueIdentifiers (example_props (Some ''d1'') None [''ENG-456'', ''ENG-1'']))
   \<and> (case fst (perform
          (example_env ''https://docs.example.com'' (example_client (Inr True) (Inr True)))
          (example_props (Some ''d1'') None [''ENG-456'', ''ENG-1''])) of
        Inr (Some r) \<Rightarrow>
          existingIdentifiers (run_existingAttachments r) = {''ENG-1''}
          \<and> run_toCreate r = [''ENG-456'']
          \<and> distinct (run_toCreate r)
          \<and> length (filter (\<lambda>operation. op_type operation = Create
                                \<and> op_identifier operation = ''ENG-456'')
                       (run_operations r)) = 1
          \<and> length (filter (\<lambda>operation. op_type operation = Create
                                \<and> op_identifier operation = ''ENG-1'')
                       (run_operations r)) = 0
      | _ \<Rightarrow> False)"
proof -
  let ?env = "example_env ''https://docs.example.com'' (example_client (Inr True) (Inr True))"
  let ?props = "example_props (Some ''d1'') None [''ENG-456'', ''ENG-1'']"
  let ?run = "\<lparr>run_attachmentUrl = ''https://docs.example.com/doc/roadmap-abc?ref=outline-backlink'',
                run_existingAttachments = [example_attachment ''a1'' ''ENG-1''],
                run_toCreate = [''ENG-456''],
                run_toDelete = [],
                run_targetTitle = ''Roadmap'',
                run_operations =
                  [\<lparr>op_type = Create, op_identifier = ''ENG-456'', op_promise = Fulfilled ()\<rparr>],
                run_results = [Fulfilled ()],
                run_succeeded = 1, run_failed = 0\<rparr>"
  have p: "fst (perform ?env ?props) = Inr (Some ?run)"
    by (simp add: task_defs example_defs)
  have d: "distinct (currentIssueIdentifiers ?props)"
    by (simp add: example_props_def)
  have e: "existingIdentifiers (run_existingAttachments ?run) = {''ENG-1''}"
    by (simp add: existingIdentifiers_def example_attachment_def)
  from creates_follow_occurrences [OF p, of "''ENG-456''"]
       creates_follow_occurrences [OF p, of "''ENG-1''"] d e
  show ?thesis
    unfolding p by (simp add: example_props_def)
qed

text \<open>
  C2 as stated fails: with the same identifier twice in the desired list and no
  attachment for it, the run has two create operations for that identifier.
\<close>

theorem duplicate_desired_counterexample:
  "toCreate [''ENG-456'', ''ENG-456''] [] = [''ENG-456'', ''ENG-456'']
   \<and> perform
        (example_env ''https://docs.example.com'' (example_client (Inr True) (Inr True)))
        (example_props (Some ''d1'') None [''ENG-456'', ''ENG-456''])
      = (Inr (Some
           \<lparr>run_attachmentUrl = ''https://docs.example.com/doc/roadmap-abc?ref=outline-backlink'',
            run_existingAttachments = [example_attachment ''a1'' ''ENG-1''],
            run_toCreate = [''ENG-456'', ''ENG-456''],
            run_toDelete = [example_attachment ''a1'' ''ENG-1''],
            run_targetTitle = ''Roadmap'',
            run_operations =
              [\<lparr>op_type = Create, op_identifier = ''ENG-456'', op_promise = Fulfilled ()\<rparr>,
               \<lparr>op_type = Create, op_identifier = ''ENG-456'', op_promise = Fulfilled ()\<rparr>,
               \<lparr>op_type = Delete, op_identifier = ''ENG-1'', op_promise = Fulfilled ()\<rparr>],
            run_results = [Fulfilled (), Fulfilled (), Fulfilled ()],
            run_succeeded = 3, run_failed = 0\<rparr>),
         [summary_log (Some ''d1'') None 2 1 3 0])"
  by (simp add: task_defs example_defs)

text \<open>
  C3 (permission denied), as the code has it. Take a run that reaches the diff. A create
  whose \<^verbatim>\<open>createAttachment\<close> call fails with a permission error (the message holds
  \<^verbatim>\<open>Forbidden\<close> or \<^verbatim>\<open>403\<close>) logs the warning that asks for a new authorisation and
  settles fulfilled: it is counted in \<open>succeeded\<close>, not in \<open>failed\<close>. A delete whose call
  fails with a permission error that is not also a not-found signal settles rejected,
  \<^verbatim>\<open>perform\<close> logs it as a warning and counts it in \<open>failed\<close>. In both cases
  \<^verbatim>\<open>perform\<close> returns without throwing.
\<close>

theorem permission_denied_outcomes:
  assumes c: "getClientForTeam env (teamId props) = Inr (Some client)"
    and t: "resolveTarget env (documentId props) (collectionId props) = (Inr (title, baseUrl), logs1)"
    and b: "baseUrl \<noteq> []"
    and u: "buildAttachmentUrl (URL env) baseUrl = Inr attachmentUrl"
  shows "\<exists>r. fst (perform env props) = Inr (Some r)
     \<and> (\<forall>i<length (run_toCreate r). \<forall>issue err.
          client_issue client (run_toCreate r ! i) = Inr (Some issue)
          \<and> client_createAttachment client
                \<lparr>in_issueId = issue_id issue, in_title = run_targetTitle r,
                 in_subtitle = OUTLINE_ATTACHMENT_SUBTITLE, in_url = run_attachmentUrl r,
                 in_iconUrl = env_URL env @ ''/images/icon-192.png''\<rparr> = Inl err
          \<and> permission_denied err
          \<longrightarrow> run_results r ! i = Fulfilled ()
              \<and> \<not> rejected (run_results r ! i)
              \<and> permission_log (run_toCreate r ! i) \<in> set (snd (perform env props)))
     \<and> (\<forall>j<length (run_toDelete r). \<forall>err.
          client_deleteAttachment client (att_id (run_toDelete r ! j)) = Inl err
          \<and> permission_denied err \<and> \<not> not_found err
          \<longrightarrow> run_results r ! (length (run_toCreate r) + j) = Rejected err
              \<and> rejected (run_results r ! (length (run_toCreate r) + j))
              \<and> operation_failed_log (documentId props) (collectionId props)
                    (run_operations r ! (length (run_toCreate r) + j)) err
                  \<in> set (snd (perform env props)))
     \<and> run_succeeded r = card {k. k < length (run_results r) \<and> \<not> rejected (run_results r ! k)}
     \<and> run_failed r = card {k. k < length (run_results r) \<and> rejected (run_results r ! k)}"
proof -
  from perform_completes [OF c t b u] obtain r where r: "fst (perform env props) = Inr (Some r)"
    by blast
  have create: "run_results r ! i = Fulfilled () \<and> \<not> rejected (run_results r ! i)
      \<and> permission_log (run_toCreate r ! i) \<in> set (snd (perform env props))"
    if "i < length (run_toCreate r)"
      and "client_issue client (run_toCreate r ! i) = Inr (Some issue)"
      and "client_createAttachment client
                \<lparr>in_issueId = issue_id issue, in_title = run_targetTitle r,
                 in_subtitle = OUTLINE_ATTACHMENT_SUBTITLE, in_url = run_attachmentUrl r,
                 in_iconUrl = env_URL env @ ''/images/icon-192.png''\<rparr> = Inl err"
      and "permission_denied err"
    for i issue err
  proof -
    have "createAttachment env client
            \<lparr>p_issueIdentifier = run_toCreate r ! i, p_title = run_targetTitle r,
             p_url = run_attachmentUrl r\<rparr>
          = (Fulfilled (), [permission_log (run_toCreate r ! i)])"
      using that(2,3,4) by (simp add: createAttachment_def permission_denied_def)
    with run_create_nth [OF r c that(1)] show ?thesis
      by (simp add: rejected_def)
  qed
  have delete: "run_results r ! (length (run_toCreate r) + j) = Rejected err
      \<and> rejected (run_results r ! (length (run_toCreate r) + j))
      \<and> operation_failed_log (documentId props) (collectionId props)
            (run_operations r ! (length (run_toCreate r) + j)) err
          \<in> set (snd (perform env props))"
    if "j < length (run_toDelete r)"
      and "client_deleteAttachment client (att_id (run_toDelete r ! j)) = Inl err"
      and "permission_denied err" and "\<not> not_found err"
    for j err
  proof -
    have "deleteAttachment client (att_id (run_toDelete r ! j)) = Rejected err"
      using that(2,4) by (simp add: deleteAttachment_def not_found_def)
    with run_delete_nth(2) [OF r c that(1)]
    have res: "run_results r ! (length (run_toCreate r) + j) = Rejected err"
      by simp
    from failure_logged [OF r run_delete_nth(3) [OF r c that(1)] res] res
    show ?thesis by (simp add: rejected_def)
  qed
  from perform_run [OF r] have
    counts: "run_succeeded r = length (filter (\<lambda>x. \<not> rejected x) (run_results r))"
      "run_failed r = length (filter rejected (run_results r))"
    by blast+
  then have cards:
    "run_succeeded r = card {k. k < length (run_results r) \<and> \<not> rejected (run_results r ! k)}"
    "run_failed r = card {k. k < length (run_results r) \<and> rejected (run_results r ! k)}"
    by (simp_all add: length_filter_conv_card)
  show ?thesis
    using r create delete cards
    by (intro exI [of _ r]) blast
qed

theorem permission_denied_outcomes_witness:
  "getClientForTeam
     (example_env ''https://docs.example.com''
        (example_client (Inl (Error ''Forbidden'')) (Inl (Error ''Forbidden''))))
     (teamId (example_props (Some ''d1'') None [''ENG-456'']))
     = Inr (Some (example_client (Inl (Error ''Forbidden'')) (Inl (Error ''Forbidden''))))
   \<and> resolveTarget
       (example_env ''https://docs.example.com''
          (example_client (Inl (Error ''Forbidden'')) (Inl (Error ''Forbidden''))))
       (documentId (example_props (Some ''d1'') None [''ENG-456'']))
       (collectionId (example_props (Some ''d1'') None [''ENG-456'']))
       = (Inr (''Roadmap'', ''https://docs.example.com/doc/roadmap-abc''), [])
   \<and> buildAttachmentUrl
       (URL (example_env ''https://docs.example.com''
          (example_client (Inl (Error ''Forbidden'')) (Inl (Error ''Forbidden'')))))
       ''https://docs.example.com/doc/roadmap-abc''
       = Inr ''https://docs.example.com/doc/roadmap-abc?ref=outline-backlink''
   \<and> client_issue (example_client (Inl (Error ''Forbidden'')) (Inl (Error ''Forbidden'')))
       ''ENG-456''
       = Inr (Some \<lparr>issue_id = ''issue-uuid-456'', issue_identifier = ''ENG-456''\<rparr>)
   \<and> client_createAttachment
       (example_client (Inl (Error ''Forbidden'')) (Inl (Error ''Forbidden'')))
       \<lparr>in_issueId = ''issue-uuid-456'', in_title = ''Roadmap'',
        in_subtitle = OUTLINE_ATTACHMENT_SUBTITLE,
        in_url = ''https://docs.example.com/doc/roadmap-abc?ref=outline-backlink'',
        in_iconUrl = ''https://docs.example.com'' @ ''/images/icon-192.png''\<rparr>
       = Inl (Error ''Forbidden'')
   \<and> client_deleteAttachment
       (example_client (Inl (Error ''Forbidden'')) (Inl (Error ''Forbidden''))) ''a1''
       = Inl (Error ''Forbidden'')
   \<and> permission_denied (Error ''Forbidden'') \<and> \<not> not_found (Error ''Forbidden'')
   \<and> (case fst (perform
          (example_env ''https://docs.example.com''
             (example_client (Inl (Error ''Forbidden'')) (Inl (Error ''Forbidden''))))
          (example_props (Some ''d1'') None [''ENG-456''])) of
        Inr (Some r) \<Rightarrow>
          run_toCreate r = [''ENG-456'']
          \<and> map att_id (run_toDelete r) = [''a1'']
          \<and> run_results r = [Fulfilled (), Rejected (Error ''Forbidden'')]
          \<and> run_succeeded r = 1 \<and> run_failed r = 1
      | _ \<Rightarrow> False)
   \<and> permission_log ''ENG-456''
       \<in> set (snd (perform
          (example_env ''https://docs.example.com''
             (example_client (Inl (Error ''Forbidden'')) (Inl (Error ''Forbidden''))))
          (example_props (Some ''d1'') None [''ENG-456''])))
   \<and> operation_failed_log (Some ''d1'') None
         \<lparr>op_type = Delete, op_identifier = ''ENG-1'',
          op_promise = Rejected (Error ''Forbidden'')\<rparr> (Error ''Forbidden'')
       \<in> set (snd (perform
          (example_env ''https://docs.example.com''
             (example_client (Inl (Error ''Forbidden'')) (Inl (Error ''Forbidden''))))
          (example_props (Some ''d1'') None [''ENG-456''])))"
proof -
  let ?client = "example_client (Inl (Error ''Forbidden'')) (Inl (Error ''Forbidden''))"
  let ?env = "example_env ''https://docs.example.com'' ?client"
  let ?props = "example_props (Some ''d1'') None [''ENG-456'']"
  have c: "getClientForTeam ?env (teamId ?props) = Inr (Some ?client)"
    by (simp add: example_env_def example_props_def)
  have t: "resolveTarget ?env (documentId ?props) (collectionId ?props)
           = (Inr (''Roadmap'', ''https://docs.example.com/doc/roadmap-abc''), [])"
    by (simp add: task_defs example_defs)
  have b: "''https://docs.example.com/doc/roadmap-abc'' \<noteq> []"
    by simp
  have u: "buildAttachmentUrl (URL ?env) ''https://docs.example.com/doc/roadmap-abc''
           = Inr ''https://docs.example.com/doc/roadmap-abc?ref=outline-backlink''"
    by (simp add: task_defs example_defs)
  from permission_denied_outcomes [OF c t b u] obtain r where
    r: "fst (perform ?env ?props) = Inr (Some r)"
    by blast
  have p: "perform ?env ?props =
    (Inr (Some \<lparr>run_attachmentUrl = ''https://docs.example.com/doc/roadmap-abc?ref=outline-backlink'',
                run_existingAttachments = [example_attachment ''a1'' ''ENG-1''],
                run_toCreate = [''ENG-456''],
                run_toDelete = [example_attachment ''a1'' ''ENG-1''],
                run_targetTitle = ''Roadmap'',
                run_operations =
                  [\<lparr>op_type = Create, op_identifier = ''ENG-456'', op_promise = Fulfilled ()\<rparr>,
                   \<lparr>op_type = Delete, op_identifier = ''ENG-1'',
                    op_promise = Rejected (Error ''Forbidden'')\<rparr>],
                run_results = [Fulfilled (), Rejected (Error ''Forbidden'')],
                run_succeeded = 1, run_failed = 1\<rparr>),
     [permission_log ''ENG-456'',
      operation_failed_log (Some ''d1'') None
         \<lparr>op_type = Delete, op_identifier = ''ENG-1'',
          op_promise = Rejected (Error ''Forbidden'')\<rparr> (Error ''Forbidden''),
      summary_log (Some ''d1'') None 1 1 1 1])"
    by (simp add: task_defs example_defs)
  have s: "permission_denied (Error ''Forbidden'') \<and> \<not> not_found (Error ''Forbidden'')"
    by (simp add: permission_denied_def not_found_def)
  have k: "client_issue ?client ''ENG-456''
             = Inr (Some \<lparr>issue_id = ''issue-uuid-456'', issue_identifier = ''ENG-456''\<rparr>)
           \<and> client_createAttachment ?client
               \<lparr>in_issueId = ''issue-uuid-456'', in_title = ''Roadmap'',
                in_subtitle = OUTLINE_ATTACHMENT_SUBTITLE,
                in_url = ''https://docs.example.com/doc/roadmap-abc?ref=outline-backlink'',
                in_iconUrl = ''https://docs.example.com'' @ ''/images/icon-192.png''\<rparr>
               = Inl (Error ''Forbidden'')
           \<and> client_deleteAttachment ?client ''a1'' = Inl (Error ''Forbidden'')"
    by (simp add: example_client_def)
  from r c t u s k show ?thesis
    unfolding p by (auto simp: example_attachment_def)
qed

text \<open>
  C3 as stated fails for a create: the only operation of this run is a create that fails
  with \<^verbatim>\<open>Forbidden\<close>, and the run ends with one succeeded and no failed operation.
\<close>

theorem permission_denied_create_counterexample:
  "permission_denied (Error ''Forbidden'')
   \<and> client_createAttachment (example_client (Inl (Error ''Forbidden'')) (Inr True))
        \<lparr>in_issueId = ''issue-uuid-456'', in_title = ''Roadmap'',
         in_subtitle = ''Outline'',
         in_url = ''https://docs.example.com/doc/roadmap-abc?ref=outline-backlink'',
         in_iconUrl = ''https://docs.example.com/images/icon-192.png''\<rparr>
       = Inl (Error ''Forbidden'')
   \<and> perform
        (example_env ''https://docs.example.com''
           (example_client (Inl (Error ''Forbidden'')) (Inr True)))
        (example_props (Some ''d1'') None [''ENG-456'', ''ENG-1''])
      = (Inr (Some
           \<lparr>run_attachmentUrl = ''https://docs.example.com/doc/roadmap-abc?ref=outline-backlink'',
            run_existingAttachments = [example_attachment ''a1'' ''ENG-1''],
            run_toCreate = [''ENG-456''],
            run_toDelete = [],
            run_targetTitle = ''Roadmap'',
            run_operations =
              [\<lparr>op_type = Create, op_identifier = ''ENG-456'', op_promise = Fulfilled ()\<rparr>],
            run_results = [Fulfilled ()],
            run_succeeded = 1, run_failed = 0\<rparr>),
         [permission_log ''ENG-456'', summary_log (Some ''d1'') None 1 0 1 0])"
  by (simp add: task_defs example_defs)

text \<open>
  C4 (idempotence). When the existing attachments carry exactly the desired identifiers,
  as they do after a first run whose operations all took effect, the diff is empty:
  nothing to create and nothing to delete, and a run of \<^verbatim>\<open>perform\<close> on them has no
  operation.
\<close>

theorem second_run_is_noop:
  assumes "existingIdentifiers existing = set desired"
  shows "toCreate desired existing = [] \<and> toDelete desired existing = []
     \<and> (\<forall>(env :: 'u environment) props r.
           fst (perform env props) = Inr (Some r)
           \<and> run_existingAttachments r = existing \<and> currentIssueIdentifiers props = desired
           \<longrightarrow> run_operations r = [] \<and> run_results r = []
               \<and> run_succeeded r = 0 \<and> run_failed r = 0)"
proof -
  have e: "toCreate desired existing = [] \<and> toDelete desired existing = []"
    using assms
    by (auto simp: toCreate_def toDelete_def desiredIdentifiers_def existingIdentifiers_def
        filter_empty_conv)
  have "run_operations r = [] \<and> run_results r = [] \<and> run_succeeded r = 0 \<and> run_failed r = 0"
    if r: "fst (perform env props) = Inr (Some r)"
      and x: "run_existingAttachments r = existing" "currentIssueIdentifiers props = desired"
    for env :: "'u environment" and props r
  proof -
    from perform_run [OF r] have
      "run_toCreate r = toCreate (currentIssueIdentifiers props) (run_existingAttachments r)"
      "run_toDelete r = toDelete (currentIssueIdentifiers props) (run_existingAttachments r)"
      by blast+
    then have none: "run_toCreate r = []" "run_toDelete r = []"
      using e x by simp_all
    from run_lengths [OF r] none show ?thesis
      by simp
  qed
  with e show ?thesis by blast
qed

theorem second_run_is_noop_witness:
  "existingIdentifiers [example_attachment ''a1'' ''ENG-1''] = set [''ENG-1'']
   \<and> toCreate [''ENG-1''] [example_attachment ''a1'' ''ENG-1''] = []
   \<and> toDelete [''ENG-1''] [example_attachment ''a1'' ''ENG-1''] = []
   \<and> currentIssueIdentifiers (example_props (Some ''d1'') None [''ENG-1'']) = [''ENG-1'']
   \<and> (case fst (perform
          (example_env ''https://docs.example.com'' (example_client (Inr True) (Inr True)))
          (example_props (Some ''d1'') None [''ENG-1''])) of
        Inr (Some r) \<Rightarrow>
          run_existingAttachments r = [example_attachment ''a1'' ''ENG-1'']
          \<and> run_operations r = [] \<and> run_results r = []
          \<and> run_succeeded r = 0 \<and> run_failed r = 0
      | _ \<Rightarrow> False)
   \<and> snd (perform
          (example_env ''https://docs.example.com'' (example_client (Inr True) (Inr True)))
          (example_props (Some ''d1'') None [''ENG-1''])) = []"
proof -
  let ?env = "example_env ''https://docs.example.com'' (example_client (Inr True) (Inr True))"
  let ?props = "example_props (Some ''d1'') None [''ENG-1'']"
  let ?existing = "[example_attachment ''a1'' ''ENG-1'']"
  let ?run = "\<lparr>run_attachmentUrl = ''https://docs.example.com/doc/roadmap-abc?ref=outline-backlink'',
                run_existingAttachments = ?existing,
                run_toCreate = [],
                run_toDelete = [],
                run_targetTitle = ''Roadmap'',
                run_operations = [],
                run_results = [],
                run_succeeded = 0, run_failed = 0\<rparr>"
  have h: "existingIdentifiers ?existing = set [''ENG-1'']"
    by (simp add: existingIdentifiers_def example_attachment_def)
  have p: "perform ?env ?props = (Inr (Some ?run), [])"
    by (simp add: task_defs example_defs)
  have c: "currentIssueIdentifiers ?props = [''ENG-1'']"
    by (simp add: example_props_def)
  from second_run_is_noop [where ?'u = string, OF h] h c show ?thesis
    unfolding p by simp
qed




text \<open>
  C6 (idempotent delete). In a run that reaches the diff, a delete whose call fails with a
  not-found signal (the message holds \<^verbatim>\<open>Not found\<close> or \<^verbatim>\<open>404\<close>) settles fulfilled:
  the error is not thrown again and the operation is not among those counted in
  \<open>failed\<close>.
\<close>

theorem not_found_delete_is_success:
  assumes r: "fst (perform env props) = Inr (Some r)"
    and c: "getClientForTeam env (teamId props) = Inr (Some client)"
    and j: "j < length (run_toDelete r)"
    and e: "client_deleteAttachment client (att_id (run_toDelete r ! j)) = Inl err"
    and n: "not_found err"
  shows "deleteAttachment client (att_id (run_toDelete r ! j)) = Fulfilled ()
     \<and> run_results r ! (length (run_toCreate r) + j) = Fulfilled ()
     \<and> length (run_toCreate r) + j
          \<notin> {k. k < length (run_results r) \<and> rejected (run_results r ! k)}
     \<and> run_failed r = card {k. k < length (run_results r) \<and> rejected (run_results r ! k)}"
proof -
  have d: "deleteAttachment client (att_id (run_toDelete r ! j)) = Fulfilled ()"
    using e n by (simp add: deleteAttachment_def not_found_def)
  with run_delete_nth(2) [OF r c j]
  have res: "run_results r ! (length (run_toCreate r) + j) = Fulfilled ()"
    by simp
  from perform_run [OF r] have "run_failed r = length (filter rejected (run_results r))"
    by blast
  then show ?thesis
    using d res by (simp add: rejected_def length_filter_conv_card)
qed

theorem not_found_delete_is_success_witness:
  "getClientForTeam
     (example_env ''https://docs.example.com''
        (example_client (Inr True) (Inl (Error ''Not found''))))
     (teamId (example_props (Some ''d1'') None []))
     = Inr (Some (example_client (Inr True) (Inl (Error ''Not found''))))
   \<and> not_found (Error ''Not found'')
   \<and> (case fst (perform
          (example_env ''https://docs.example.com''
             (example_client (Inr True) (Inl (Error ''Not found''))))
          (example_props (Some ''d1'') None [])) of
        Inr (Some r) \<Rightarrow>
          0 < length (run_toDelete r)
          \<and> client_deleteAttachment (example_client (Inr True) (Inl (Error ''Not found'')))
                (att_id (run_toDelete r ! 0)) = Inl (Error ''Not found'')
          \<and> deleteAttachment (example_client (Inr True) (Inl (Error ''Not found'')))
                (att_id (run_toDelete r ! 0)) = Fulfilled ()
          \<and> run_results r ! (length (run_toCreate r) + 0) = Fulfilled ()
          \<and> length (run_toCreate r) + 0
               \<notin> {k. k < length (run_results r) \<and> rejected (run_results r ! k)}
          \<and> run_failed r = 0
      | _ \<Rightarrow> False)"
proof -
  let ?client = "example_client (Inr True) (Inl (Error ''Not found''))"
  let ?env = "example_env ''https://docs.example.com'' ?client"
  let ?props = "example_props (Some ''d1'') None []"
  let ?run = "\<lparr>run_attachmentUrl = ''https://docs.example.com/doc/roadmap-abc?ref=outline-backlink'',
                run_existingAttachments = [example_attachment ''a1'' ''ENG-1''],
                run_toCreate = [],
                run_toDelete = [example_attachment ''a1'' ''ENG-1''],
                run_targetTitle = ''Roadmap'',
                run_operations =
                  [\<lparr>op_type = Delete, op_identifier = ''ENG-1'', op_promise = Fulfilled ()\<rparr>],
                run_results = [Fulfilled ()],
                run_succeeded = 1, run_failed = 0\<rparr>"
  have p: "fst (perform ?env ?props) = Inr (Some ?run)"
    by (simp add: task_defs example_defs)
  have c: "getClientForTeam ?env (teamId ?props) = Inr (Some ?client)"
    by (simp add: example_env_def example_props_def)
  have j: "0 < length (run_toDelete ?run)"
    by simp
  have e: "client_deleteAttachment ?client (att_id (run_toDelete ?run ! 0))
           = Inl (Error ''Not found'')"
    by (simp add: example_client_def)
  have n: "not_found (Error ''Not found'')"
    by (simp add: not_found_def)
  from not_found_delete_is_success [OF p c j e n] c e n show ?thesis
    unfolding p by (simp add: rejected_def)
qed

text \<open>
  C7 (duplicate remote attachments). When two or more existing attachments carry the same
  issue identifier: if the identifier is not desired, all of them are in \<open>toDelete\<close>;
  if it is desired, it is not in \<open>toCreate\<close> and none of them is in \<open>toDelete\<close>.
\<close>

theorem duplicates_follow_desired:
  assumes "2 \<le> length (filter (\<lambda>a. issue_identifier (att_issue a) = x) existing)"
  shows "(x \<notin> set desired \<longrightarrow>
            filter (\<lambda>a. issue_identifier (att_issue a) = x) (toDelete desired existing)
            = filter (\<lambda>a. issue_identifier (att_issue a) = x) existing)
         \<and> (x \<in> set desired \<longrightarrow>
              x \<notin> set (toCreate desired existing)
              \<and> filter (\<lambda>a. issue_identifier (att_issue a) = x) (toDelete desired existing) = [])"
proof -
  have "filter (\<lambda>a. issue_identifier (att_issue a) = x) existing \<noteq> []"
    using assms by auto
  then have among: "x \<in> existingIdentifiers existing"
    by (auto simp: existingIdentifiers_def filter_empty_conv)
  have del: "filter (\<lambda>a. issue_identifier (att_issue a) = x) (toDelete desired existing)
             = filter (\<lambda>a. issue_identifier (att_issue a) = x \<and> x \<notin> set desired) existing"
    unfolding toDelete_def desiredIdentifiers_def filter_filter
    by (rule filter_cong) auto
  show ?thesis
    using among by (auto simp: del toCreate_def)
qed

theorem duplicates_follow_desired_witness:
  "2 \<le> length (filter (\<lambda>a. issue_identifier (att_issue a) = ''ENG-1'')
                  [example_attachment ''a1'' ''ENG-1'', example_attachment ''a2'' ''ENG-1''])
   \<and> ''ENG-1'' \<notin> set []
   \<and> filter (\<lambda>a. issue_identifier (att_issue a) = ''ENG-1'')
        (toDelete [] [example_attachment ''a1'' ''ENG-1'', example_attachment ''a2'' ''ENG-1''])
      = [example_attachment ''a1'' ''ENG-1'', example_attachment ''a2'' ''ENG-1'']
   \<and> ''ENG-1'' \<in> set [''ENG-1'']
   \<and> ''ENG-1'' \<notin> set (toCreate [''ENG-1'']
        [example_attachment ''a1'' ''ENG-1'', example_attachment ''a2'' ''ENG-1''])
   \<and> filter (\<lambda>a. issue_identifier (att_issue a) = ''ENG-1'')
        (toDelete [''ENG-1'']
           [example_attachment ''a1'' ''ENG-1'', example_attachment ''a2'' ''ENG-1'']) = []"
proof -
  let ?dup = "[example_attachment ''a1'' ''ENG-1'', example_attachment ''a2'' ''ENG-1'']"
  have h: "2 \<le> length (filter (\<lambda>a. issue_identifier (att_issue a) = ''ENG-1'') ?dup)"
    by (simp add: example_attachment_def)
  have f: "filter (\<lambda>a. issue_identifier (att_issue a) = ''ENG-1'') ?dup = ?dup"
    by (simp add: example_attachment_def)
  from duplicates_follow_desired [OF h, of "[]"]
       duplicates_follow_desired [OF h, of "[''ENG-1'']"] h f
  show ?thesis by simp
qed

text \<open>
  C8 (placeholder title), as the code has it. For a resolved document whose stored title is
  empty the title is \<^verbatim>\<open>Untitled\<close>; for a resolved collection whose stored name is empty
  it is \<^verbatim>\<open>Untitled Collection\<close>. The title of a run, which every create operation
  passes to \<^verbatim>\<open>createAttachment\<close>, is the title that target resolution returned.
\<close>

theorem placeholder_titles:
  assumes "env_URL env \<noteq> []"
  shows "(present documentId' = Some did \<and> Document_findByPk env did = Inr (Some document)
          \<and> present (doc_path document) = Some path \<and> doc_title document = []
          \<longrightarrow> fst (resolveTarget env documentId' collectionId')
                = Inr (''Untitled'', buildEntityUrl env path))
       \<and> (present documentId' = None \<and> present collectionId' = Some cid
          \<and> Collection_findByPk env cid = Inr (Some collection)
          \<and> present (col_path collection) = Some path' \<and> col_name collection = []
          \<longrightarrow> fst (resolveTarget env documentId' collectionId')
                = Inr (''Untitled Collection'', buildEntityUrl env path'))
       \<and> (\<forall>r client. fst (perform env props) = Inr (Some r)
             \<and> getClientForTeam env (teamId props) = Inr (Some client)
          \<longrightarrow> (\<exists>url. fst (resolveTarget env (documentId props) (collectionId props))
                       = Inr (run_targetTitle r, url))
              \<and> (\<forall>i<length (run_toCreate r).
                    run_operations r ! i =
                      \<lparr>op_type = Create, op_identifier = run_toCreate r ! i,
                       op_promise = fst (createAttachment env client
                         \<lparr>p_issueIdentifier = run_toCreate r ! i,
                          p_title = run_targetTitle r,
                          p_url = run_attachmentUrl r\<rparr>)\<rparr>))"
proof (intro conjI allI impI)
  assume "present documentId' = Some did \<and> Document_findByPk env did = Inr (Some document)
          \<and> present (doc_path document) = Some path \<and> doc_title document = []"
  then show "fst (resolveTarget env documentId' collectionId')
                = Inr (''Untitled'', buildEntityUrl env path)"
    using assms by (simp add: resolveTarget_def Let_def or_else_def)
next
  assume "present documentId' = None \<and> present collectionId' = Some cid
          \<and> Collection_findByPk env cid = Inr (Some collection)
          \<and> present (col_path collection) = Some path' \<and> col_name collection = []"
  then show "fst (resolveTarget env documentId' collectionId')
                = Inr (''Untitled Collection'', buildEntityUrl env path')"
    using assms by (simp add: resolveTarget_def Let_def or_else_def)
next
  fix r client
  assume a: "fst (perform env props) = Inr (Some r)
             \<and> getClientForTeam env (teamId props) = Inr (Some client)"
  from perform_run [of env props r] a obtain title baseUrl logs1 where
    t: "resolveTarget env (documentId props) (collectionId props) = (Inr (title, baseUrl), logs1)"
    and b: "baseUrl \<noteq> []"
    and tt: "run_targetTitle r = or_else title ''Untitled''"
    by blast
  from resolveTarget_title [OF t b] tt t
  show "\<exists>url. fst (resolveTarget env (documentId props) (collectionId props))
                = Inr (run_targetTitle r, url)"
    by (simp add: or_else_def)
  fix i
  assume "i < length (run_toCreate r)"
  with a run_create_nth(1) [of env props r client i]
  show "run_operations r ! i =
          \<lparr>op_type = Create, op_identifier = run_toCreate r ! i,
           op_promise = fst (createAttachment env client
             \<lparr>p_issueIdentifier = run_toCreate r ! i,
              p_title = run_targetTitle r,
              p_url = run_attachmentUrl r\<rparr>)\<rparr>"
    by blast
qed

theorem placeholder_titles_witness:
  "env_URL (example_env ''https://docs.example.com'' (example_client (Inr True) (Inr True))) \<noteq> []
   \<and> present (Some ''d2'') = Some ''d2''
   \<and> Document_findByPk
       (example_env ''https://docs.example.com'' (example_client (Inr True) (Inr True))) ''d2''
       = Inr (Some \<lparr>doc_title = [], doc_path = Some ''/doc/untitled-def''\<rparr>)
   \<and> fst (resolveTarget
          (example_env ''https://docs.example.com'' (example_client (Inr True) (Inr True)))
          (Some ''d2'') None)
       = Inr (''Untitled'', ''https://docs.example.com/doc/untitled-def'')
   \<and> present None = None \<and> present (Some ''c1'') = Some ''c1''
   \<and> Collection_findByPk
       (example_env ''https://docs.example.com'' (example_client (Inr True) (Inr True))) ''c1''
       = Inr (Some \<lparr>col_name = [], col_path = Some ''/collection/c-xyz''\<rparr>)
   \<and> fst (resolveTarget
          (example_env ''https://docs.example.com'' (example_client (Inr True) (Inr True)))
          None (Some ''c1''))
       = Inr (''Untitled Collection'', ''https://docs.example.com/collection/c-xyz'')
   \<and> getClientForTeam
       (example_env ''https://docs.example.com'' (example_client (Inr True) (Inr True)))
       (teamId (example_props (Some ''d2'') None [''ENG-456'']))
       = Inr (Some (example_client (Inr True) (Inr True)))
   \<and> (case fst (perform
          (example_env ''https://docs.example.com'' (example_client (Inr True) (Inr True)))
          (example_props (Some ''d2'') None [''ENG-456''])) of
        Inr (Some r) \<Rightarrow>
          run_toCreate r = [''ENG-456'']
          \<and> run_targetTitle r = ''Untitled''
          \<and> run_operations r ! 0 =
               \<lparr>op_type = Create, op_identifier = ''ENG-456'',
                op_promise = fst (createAttachment
                  (example_env ''https://docs.example.com'' (example_client (Inr True) (Inr True)))
                  (example_client (Inr True) (Inr True))
                  \<lparr>p_issueIdentifier = ''ENG-456'', p_title = ''Untitled'',
                   p_url = ''https://docs.example.com/doc/untitled-def?ref=outline-backlink''\<rparr>)\<rparr>
      | _ \<Rightarrow> False)"
proof -
  let ?client = "example_client (Inr True) (Inr True)"
  let ?env = "example_env ''https://docs.example.com'' ?client"
  let ?props = "example_props (Some ''d2'') None [''ENG-456'']"
  let ?document = "\<lparr>doc_title = [], doc_path = Some ''/doc/untitled-def''\<rparr>"
  let ?collection = "\<lparr>col_name = [], col_path = Some ''/collection/c-xyz''\<rparr>"
  let ?run = "\<lparr>run_attachmentUrl = ''https://docs.example.com/doc/untitled-def?ref=outline-backlink'',
                run_existingAttachments =
                  [\<lparr>att_id = ''a1'',
                    att_url = ''https://docs.example.com/doc/untitled-def?ref=outline-backlink'',
                    att_issue = \<lparr>issue_id = ''issue-uuid-1'', issue_identifier = ''ENG-1''\<rparr>\<rparr>],
                run_toCreate = [''ENG-456''],
                run_toDelete =
                  [\<lparr>att_id = ''a1'',
                    att_url = ''https://docs.example.com/doc/untitled-def?ref=outline-backlink'',
                    att_issue = \<lparr>issue_id = ''issue-uuid-1'', issue_identifier = ''ENG-1''\<rparr>\<rparr>],
                run_targetTitle = ''Untitled'',
                run_operations =
                  [\<lparr>op_type = Create, op_identifier = ''ENG-456'', op_promise = Fulfilled ()\<rparr>,
                   \<lparr>op_type = Delete, op_identifier = ''ENG-1'', op_promise = Fulfilled ()\<rparr>],
                run_results = [Fulfilled (), Fulfilled ()],
                run_succeeded = 2, run_failed = 0\<rparr>"
  have u: "env_URL ?env \<noteq> []"
    by (simp add: example_env_def example_props_def)
  have d: "present (Some ''d2'') = Some ''d2'' \<and> Document_findByPk ?env ''d2'' = Inr (Some ?document)
           \<and> present (doc_path ?document) = Some ''/doc/untitled-def''
           \<and> doc_title ?document = []"
    by (simp add: example_env_def present_def truthy_def)
  have c: "present None = None \<and> present (Some ''c1'') = Some ''c1''
           \<and> Collection_findByPk ?env ''c1'' = Inr (Some ?collection)
           \<and> present (col_path ?collection) = Some ''/collection/c-xyz''
           \<and> col_name ?collection = []"
    by (simp add: example_env_def present_def truthy_def)
  have p: "fst (perform ?env ?props) = Inr (Some ?run)"
    by (simp add: task_defs example_defs)
  have g: "getClientForTeam ?env (teamId ?props) = Inr (Some ?client)"
    by (simp add: example_env_def example_props_def)
  have e: "buildEntityUrl ?env ''/doc/untitled-def'' = ''https://docs.example.com/doc/untitled-def''"
    "buildEntityUrl ?env ''/collection/c-xyz'' = ''https://docs.example.com/collection/c-xyz''"
    by (simp_all add: buildEntityUrl_def example_env_def)
  have t: "fst (resolveTarget ?env (documentId ?props) (collectionId ?props))
           = Inr (''Untitled'', ''https://docs.example.com/doc/untitled-def'')"
    by (simp add: task_defs example_defs)
  note w = placeholder_titles [OF u, of "Some ''d2''" "''d2''" ?document "''/doc/untitled-def''"
      None _ _ _ ?props]
    placeholder_titles [OF u, of None _ _ _ "Some ''c1''" "''c1''" ?collection
      "''/collection/c-xyz''" ?props]
  from w(1) d have r1: "fst (resolveTarget ?env (Some ''d2'') None)
       = Inr (''Untitled'', ''https://docs.example.com/doc/untitled-def'')"
    unfolding e by blast
  from w(2) c have r2: "fst (resolveTarget ?env None (Some ''c1''))
       = Inr (''Untitled Collection'', ''https://docs.example.com/collection/c-xyz'')"
    unfolding e by blast
  from w(1) p g have r3: "run_targetTitle ?run = ''Untitled''"
    by simp
  from r1 r2 r3 u d c g show ?thesis
    unfolding p by (simp add: task_defs example_defs)
qed

text \<open>
  C8 as stated fails for a collection: a collection with an empty name resolves to the
  title \<^verbatim>\<open>Untitled Collection\<close>, and that is the title of the run.
\<close>

theorem untitled_collection_counterexample:
  "Collection_findByPk
     (example_env ''https://docs.example.com'' (example_client (Inr True) (Inr True))) ''c1''
     = Inr (Some \<lparr>col_name = [], col_path = Some ''/collection/c-xyz''\<rparr>)
   \<and> resolveTarget
        (example_env ''https://docs.example.com'' (example_client (Inr True) (Inr True)))
        None (Some ''c1'')
      = (Inr (''Untitled Collection'', ''https://docs.example.com/collection/c-xyz''), [])
   \<and> ''Untitled Collection'' \<noteq> ''Untitled''
   \<and> perform
        (example_env ''https://docs.example.com'' (example_client (Inr True) (Inr True)))
        (example_props None (Some ''c1'') [''ENG-456'', ''ENG-1''])
      = (Inr (Some
           \<lparr>run_attachmentUrl = ''https://docs.example.com/collection/c-xyz?ref=outline-backlink'',
            run_existingAttachments =
              [\<lparr>att_id = ''a1'',
                att_url = ''https://docs.example.com/collection/c-xyz?ref=outline-backlink'',
                att_issue = \<lparr>issue_id = ''issue-uuid-1'', issue_identifier = ''ENG-1''\<rparr>\<rparr>],
            run_toCreate = [''ENG-456''],
            run_toDelete = [],
            run_targetTitle = ''Untitled Collection'',
            run_operations =
              [\<lparr>op_type = Create, op_identifier = ''ENG-456'', op_promise = Fulfilled ()\<rparr>],
            run_results = [Fulfilled ()],
            run_succeeded = 1, run_failed = 0\<rparr>),
         [summary_log None (Some ''c1'') 1 0 1 0])"
  by (simp add: task_defs example_defs)

text \<open>
  C10 (attachments whose issue does not resolve). Take the nodes the list call returns.
  Every attachment of \<open>toDelete\<close> comes from a node whose issue resolved, and every
  desired identifier that no node with a resolved issue carries is in \<open>toCreate\<close>: a
  node without a resolved issue neither is deleted nor holds back a create. When no issue
  fetch throws, \<^verbatim>\<open>fetchAttachmentsForUrl\<close> returns the attachments of the nodes whose
  issue resolved, in order, and logs nothing, and \<open>toCreate\<close> holds exactly those
  identifiers.
\<close>

theorem unresolved_attachments_are_omitted:
  assumes "client_attachmentsForURL client url = Inr nodes"
  shows "(\<forall>a\<in>set (toDelete desired (fst (fetchAttachmentsForUrl client url))).
           \<exists>n\<in>set nodes. \<exists>issue. node_issue n = Inr (Some issue)
             \<and> a = \<lparr>att_id = node_id n, att_url = node_url n,
                     att_issue = \<lparr>issue_id = issue_id issue,
                                   issue_identifier = issue_identifier issue\<rparr>\<rparr>)
     \<and> {d. d \<in> set desired
            \<and> \<not> (\<exists>n\<in>set nodes. \<exists>issue. node_issue n = Inr (Some issue)
                     \<and> issue_identifier issue = d)}
         \<subseteq> set (toCreate desired (fst (fetchAttachmentsForUrl client url)))
     \<and> ((\<forall>n\<in>set nodes. \<exists>issue. node_issue n = Inr issue) \<longrightarrow>
          fetchAttachmentsForUrl client url = (List.map_filter node_attachment nodes, [])
          \<and> set (toCreate desired (fst (fetchAttachmentsForUrl client url)))
              = {d. d \<in> set desired
                   \<and> \<not> (\<exists>n\<in>set nodes. \<exists>issue. node_issue n = Inr (Some issue)
                            \<and> issue_identifier issue = d)})"
proof (cases "\<forall>n\<in>set nodes. \<exists>issue. node_issue n = Inr issue")
  case True
  note f = fetch_resolved [OF assms True]
  have d: "\<forall>a\<in>set (toDelete desired (List.map_filter node_attachment nodes)).
           \<exists>n\<in>set nodes. \<exists>issue. node_issue n = Inr (Some issue)
             \<and> a = \<lparr>att_id = node_id n, att_url = node_url n,
                     att_issue = \<lparr>issue_id = issue_id issue,
                                   issue_identifier = issue_identifier issue\<rparr>\<rparr>"
    by (auto simp: toDelete_def set_map_filter_nodes)
  have c: "set (toCreate desired (List.map_filter node_attachment nodes))
         = {d. d \<in> set desired
              \<and> \<not> (\<exists>n\<in>set nodes. \<exists>issue. node_issue n = Inr (Some issue)
                       \<and> issue_identifier issue = d)}"
    unfolding toCreate_def existingIdentifiers_nodes by auto
  show ?thesis
    using d c True by (simp add: f)
next
  case False
  from fetch_throws [OF assms False] False show ?thesis
    by (auto simp: toDelete_def toCreate_def existingIdentifiers_def)
qed

theorem unresolved_attachments_are_omitted_witness:
  "client_attachmentsForURL example_unresolved_client
     ''https://docs.example.com/doc/roadmap-abc?ref=outline-backlink''
     = Inr (example_nodes ''https://docs.example.com/doc/roadmap-abc?ref=outline-backlink'')
   \<and> map node_issue (example_nodes ''https://docs.example.com/doc/roadmap-abc?ref=outline-backlink'')
       = [Inr None, Inr (Some \<lparr>issue_id = ''issue-uuid-1'', issue_identifier = ''ENG-1''\<rparr>)]
   \<and> fetchAttachmentsForUrl example_unresolved_client
       ''https://docs.example.com/doc/roadmap-abc?ref=outline-backlink''
       = ([example_attachment ''a1'' ''ENG-1''], [])
   \<and> toDelete [''ENG-456'']
       (fst (fetchAttachmentsForUrl example_unresolved_client
               ''https://docs.example.com/doc/roadmap-abc?ref=outline-backlink''))
       = [example_attachment ''a1'' ''ENG-1'']
   \<and> set (toCreate [''ENG-456'']
       (fst (fetchAttachmentsForUrl example_unresolved_client
               ''https://docs.example.com/doc/roadmap-abc?ref=outline-backlink'')))
       = {''ENG-456''}"
proof -
  let ?url = "''https://docs.example.com/doc/roadmap-abc?ref=outline-backlink''"
  have a: "client_attachmentsForURL example_unresolved_client ?url = Inr (example_nodes ?url)"
    by (simp add: example_unresolved_client_def)
  have i: "map node_issue (example_nodes ?url)
           = [Inr None, Inr (Some \<lparr>issue_id = ''issue-uuid-1'', issue_identifier = ''ENG-1''\<rparr>)]"
    by (simp add: example_nodes_def)
  have b: "\<forall>n\<in>set (example_nodes ?url). \<exists>issue. node_issue n = Inr issue"
    by (simp add: example_nodes_def)
  have m: "List.map_filter node_attachment (example_nodes ?url)
           = [example_attachment ''a1'' ''ENG-1'']"
    by (simp add: example_nodes_def node_attachment_def map_filter_simps example_attachment_def)
  from unresolved_attachments_are_omitted [OF a, of "[''ENG-456'']"] b
  have f: "fetchAttachmentsForUrl example_unresolved_client ?url
           = ([example_attachment ''a1'' ''ENG-1''], [])"
    unfolding m by blast
  show ?thesis
    unfolding f using a i
    by (simp add: toDelete_def toCreate_def existingIdentifiers_def desiredIdentifiers_def
        example_attachment_def)
qed

end
